theory Spec2Isabelle
  imports Complex_Main "HOL-Library.Word" "HOL-Library.Sublist"
begin

text \<open>
  The provider module of aicommit, \<open>lib/ai-providers.js\<close>: \<open>generateCommitMessage\<close>
  bounds a diff, hands it to one of three backends (Claude, OpenAI, Gemini), each of
  which resolves its secret, builds the prompt, makes one network call and reads the
  text out of the answer. The model is a shallow embedding: every function of the
  module is a HOL function of the same name, errors are values, and the console and the
  network are passed explicitly.
\<close>

section \<open>JavaScript values\<close>

text \<open>
  A JavaScript string is a sequence of UTF-16 code units: \<open>length\<close>, \<open>substring\<close>
  and \<open>trim\<close> all work on code units, so a string is a list of 16-bit words. The
  literals of the program are ASCII; \<open>lit\<close> turns one into code units.
\<close>

type_synonym jsstring = "16 word list"

definition lit :: "string \<Rightarrow> jsstring" where
  "lit s = map of_char s"

text \<open>
  The values that \<open>JSON.parse\<close> and the two SDKs hand back, and the object literals the
  program passes to them. A number is kept as the rational it denotes (\<open>0.3\<close> is
  \<open>3 / 10\<close>); only whether it is zero is ever looked at. An object is the list of its
  own properties. \<open>undefined\<close> is not a JSON value: an expression that may be
  \<open>undefined\<close> has type \<open>json option\<close>, with \<open>None\<close> for \<open>undefined\<close>.
\<close>

datatype json =
    JNull
  | JBool bool
  | JNum rat
  | JStr jsstring
  | JArr "json list"
  | JObj "(jsstring \<times> json) list"

text \<open>
  What the runtime fixes and the program only reads: \<open>process.env\<close>, the text the
  engine gives a \<open>TypeError\<close> (raised when property \<open>k\<close> is read from \<open>undefined\<close>
  or \<open>null\<close>, or when \<open>v.k\<close> is called and is not a function), and the string
  conversion of a value that is not a string.
\<close>

record host =
  env :: "string \<Rightarrow> jsstring option"
  typeErrorMessage :: "json option \<Rightarrow> string \<Rightarrow> jsstring"
  toStringNonString :: "json \<Rightarrow> jsstring"

text \<open>
  Inside a \<open>try\<close> block a computation either yields a value or throws; the \<open>catch\<close>
  blocks of this program read nothing but \<open>error.message\<close>, so a thrown error is its
  message (\<open>Inl\<close>).
\<close>

definition andThen :: "jsstring + 'a \<Rightarrow> ('a \<Rightarrow> jsstring + 'b) \<Rightarrow> jsstring + 'b" where
  "andThen r f = (case r of Inl m \<Rightarrow> Inl m | Inr v \<Rightarrow> f v)"

text \<open>
  \<open>v[k]\<close> for a value \<open>v\<close> that is neither \<open>undefined\<close> nor \<open>null\<close>, for the
  property names this program reads from a response (\<open>content\<close>, \<open>text\<close>,
  \<open>choices\<close>, \<open>message\<close>, \<open>candidates\<close>, \<open>parts\<close>, \<open>error\<close> and the index
  \<open>0\<close>): none of them is defined on a prototype, so an object answers with its own
  property, an array or a string answers only the index, and a number or a boolean has
  none.
\<close>

fun member_of :: "json \<Rightarrow> string \<Rightarrow> json option" where
  "member_of (JObj kvs) k = map_of kvs (lit k)"
| "member_of (JArr xs) k =
     (if k = ''0'' then (case xs of [] \<Rightarrow> None | x # _ \<Rightarrow> Some x) else None)"
| "member_of (JStr s) k =
     (if k = ''0'' then (case s of [] \<Rightarrow> None | c # _ \<Rightarrow> Some (JStr [c])) else None)"
| "member_of (JNum _) k = None"
| "member_of (JBool _) k = None"
| "member_of JNull k = None"

text \<open>\<open>v.k\<close>: a \<open>TypeError\<close> on \<open>undefined\<close> and \<open>null\<close>.\<close>

definition getProp :: "host \<Rightarrow> json option \<Rightarrow> string \<Rightarrow> jsstring + json option" where
  "getProp h v k =
     (case v of
        None \<Rightarrow> Inl (typeErrorMessage h None k)
      | Some JNull \<Rightarrow> Inl (typeErrorMessage h (Some JNull) k)
      | Some j \<Rightarrow> Inr (member_of j k))"

text \<open>\<open>v?.k\<close>: \<open>undefined\<close> on \<open>undefined\<close> and \<open>null\<close>.\<close>

definition optChain :: "json option \<Rightarrow> string \<Rightarrow> json option" where
  "optChain v k =
     (case v of
        None \<Rightarrow> None
      | Some JNull \<Rightarrow> None
      | Some j \<Rightarrow> member_of j k)"

text \<open>Truthiness, as \<open>||\<close> and \<open>!\<close> test it.\<close>

fun truthy :: "json option \<Rightarrow> bool" where
  "truthy None = False"
| "truthy (Some JNull) = False"
| "truthy (Some (JBool b)) = b"
| "truthy (Some (JNum n)) = (n \<noteq> 0)"
| "truthy (Some (JStr s)) = (s \<noteq> [])"
| "truthy (Some (JArr _)) = True"
| "truthy (Some (JObj _)) = True"

text \<open>\<open>ToString\<close>, as \<open>new Error(v)\<close> applies it to its argument.\<close>

definition toString :: "host \<Rightarrow> json \<Rightarrow> jsstring" where
  "toString h v = (case v of JStr s \<Rightarrow> s | _ \<Rightarrow> toStringNonString h v)"

subsection \<open>\<open>String.prototype.trim\<close>\<close>

text \<open>
  \<open>trim\<close> removes the code points of the ECMAScript productions WhiteSpace and
  LineTerminator from both ends. All of them lie in the Basic Multilingual Plane, so
  each is a single code unit.
\<close>

definition isWhiteSpace :: "16 word \<Rightarrow> bool" where
  "isWhiteSpace c \<longleftrightarrow>
     c \<in> {0x0009, 0x000A, 0x000B, 0x000C, 0x000D, 0x0020, 0x00A0, 0x1680,
          0x2000, 0x2001, 0x2002, 0x2003, 0x2004, 0x2005, 0x2006, 0x2007,
          0x2008, 0x2009, 0x200A, 0x2028, 0x2029, 0x202F, 0x205F, 0x3000, 0xFEFF}"

definition trim :: "jsstring \<Rightarrow> jsstring" where
  "trim s = rev (dropWhile isWhiteSpace (rev (dropWhile isWhiteSpace s)))"

definition callTrim :: "host \<Rightarrow> json option \<Rightarrow> jsstring + jsstring" where
  "callTrim h v =
     (case v of
        Some (JStr s) \<Rightarrow> Inr (trim s)
      | _ \<Rightarrow> Inl (typeErrorMessage h v ''trim''))"

section \<open>The configuration (\<open>lib/config.js\<close>)\<close>

text \<open>
  The shape \<open>loadConfig\<close> returns: \<open>apiKeys\<close> may be missing from a stored file, and
  so may each key; the default configuration holds the empty string for all three.
\<close>

record keys =
  anthropic :: "jsstring option"
  openai :: "jsstring option"
  gemini :: "jsstring option"

record config =
  defaultProvider :: "jsstring option"
  apiKeys :: "keys option"
  autoCommit :: bool

definition defaultConfig :: config where
  "defaultConfig =
     \<lparr>defaultProvider = Some (lit ''claude''),
      apiKeys = Some \<lparr>anthropic = Some [], openai = Some [], gemini = Some []\<rparr>,
      autoCommit = False\<rparr>"

text \<open>\<open>config.apiKeys?.k\<close>.\<close>

definition configKey :: "config \<Rightarrow> (keys \<Rightarrow> jsstring option) \<Rightarrow> jsstring option" where
  "configKey cfg k = (case apiKeys cfg of None \<Rightarrow> None | Some ks \<Rightarrow> k ks)"

text \<open>\<open>a || b\<close> on strings that may be \<open>undefined\<close>: \<open>a\<close> unless it is falsy.\<close>

definition orElse :: "jsstring option \<Rightarrow> jsstring option \<Rightarrow> jsstring option" where
  "orElse a b = (case a of None \<Rightarrow> b | Some s \<Rightarrow> if s = [] then b else Some s)"

section \<open>The prompt (\<open>buildPrompt\<close>)\<close>

text \<open>
  The repository holds the provider module twice, \<open>lib/ai-providers.js\<close> and a copy
  that differs from it in the text of \<open>buildPrompt\<close> alone. The model has one module
  with the variant as a parameter: \<open>Thorough\<close> is the template of
  \<open>lib/ai-providers.js\<close>, \<open>Concise\<close> that of the copy. Each template is cut at its
  \<open>##\<close> headings.
\<close>

datatype style = Thorough | Concise

definition thorough_roleFraming :: string where
  \<open>thorough_roleFraming =
     ''You are an expert developer writing a detailed git commit message. Analyze the git diff carefully and generate a professional, comprehensive commit message.\<newline>'' @
     ''\<newline>''\<close>

definition thorough_outputFormat :: string where
  \<open>thorough_outputFormat =
     ''## OUTPUT FORMAT (Conventional Commits):\<newline>'' @
     ''\<newline>'' @
     ''<type>(<scope>): <concise summary describing the main change>\<newline>'' @
     ''\<newline>'' @
     ''<paragraph explaining the motivation, context, and overall approach - 2-4 sentences>\<newline>'' @
     ''\<newline>'' @
     ''Key changes:\<newline>'' @
     ''- <specific technical change 1>\<newline>'' @
     ''- <specific technical change 2>\<newline>'' @
     ''- <specific technical change 3>\<newline>'' @
     ''- ... (list ALL significant changes)\<newline>'' @
     ''\<newline>'' @
     ''[Optional sections if applicable:]\<newline>'' @
     ''\<newline>'' @
     ''Testing:\<newline>'' @
     ''- <what was tested>\<newline>'' @
     ''\<newline>'' @
     ''Fixes:\<newline>'' @
     ''- <specific bug/issue fixed>\<newline>'' @
     ''\<newline>'' @
     ''Breaking changes:\<newline>'' @
     ''- <what breaks and how to migrate>\<newline>'' @
     ''\<newline>''\<close>

definition commitTypes :: string where
  \<open>commitTypes =
     ''## COMMIT TYPES:\<newline>'' @
     ''- feat: New feature or significant enhancement\<newline>'' @
     ''- fix: Bug fix\<newline>'' @
     ''- refactor: Code restructuring without changing behavior\<newline>'' @
     ''- docs: Documentation only\<newline>'' @
     ''- style: Formatting, whitespace (no logic change)\<newline>'' @
     ''- test: Adding/updating tests\<newline>'' @
     ''- chore: Build, config, tooling changes\<newline>'' @
     ''- perf: Performance improvements\<newline>'' @
     ''\<newline>''\<close>

definition thorough_criticalRules :: string where
  \<open>thorough_criticalRules =
     ''## CRITICAL RULES:\<newline>'' @
     ''1. NEVER write generic messages like "Update files" or "Make changes"\<newline>'' @
     ''2. The summary line must describe WHAT specifically changed (max 72 chars)\<newline>'' @
     ''3. Analyze the ACTUAL code changes - mention specific functions, components, variables\<newline>'' @
     ''4. Explain WHY the change was made, not just what files were touched\<newline>'' @
     ''5. Group related changes logically in the bullet points\<newline>'' @
     ''6. Use technical terminology appropriate to the codebase\<newline>'' @
     ''7. If there are multiple distinct changes, mention all of them\<newline>'' @
     ''8. Use present tense imperatives: "Add", "Fix", "Refactor", "Update"\<newline>'' @
     ''9. Be specific: instead of "improve code", say "extract validation logic into separate helper function"\<newline>'' @
     ''10. If the diff shows HTML/CSS/JS changes together, describe the feature being built, not just "update HTML, JS, CSS"\<newline>'' @
     ''\<newline>''\<close>

definition thorough_examples :: string where
  \<open>thorough_examples =
     ''## EXAMPLE OF GOOD COMMIT:\<newline>'' @
     ''\<newline>'' @
     ''refactor(auth): simplify token validation and fix session handling\<newline>'' @
     ''\<newline>'' @
     ''Restructure authentication flow to improve maintainability and fix\<newline>'' @
     ''several edge cases in session management that caused users to be\<newline>'' @
     ''unexpectedly logged out.\<newline>'' @
     ''\<newline>'' @
     ''Key changes:\<newline>'' @
     ''- Extract token validation into dedicated validateToken() helper\<newline>'' @
     ''- Replace synchronous localStorage calls with async wrapper\<newline>'' @
     ''- Fix race condition in concurrent API requests during token refresh\<newline>'' @
     ''- Add null checks for user context in protected routes\<newline>'' @
     ''- Remove deprecated sessionStorage fallback code\<newline>'' @
     ''\<newline>'' @
     ''Fixes:\<newline>'' @
     ''- Users no longer logged out when opening multiple tabs\<newline>'' @
     ''- Token refresh no longer fails silently on slow connections\<newline>'' @
     ''\<newline>''\<close>

definition diffHeader :: string where
  \<open>diffHeader =
     ''## GIT DIFF TO ANALYZE:\<newline>'' @
     ''\<newline>''\<close>

definition thorough_closing :: string where
  \<open>thorough_closing =
     ''\<newline>'' @
     ''\<newline>'' @
     ''Generate the commit message now. Be thorough and specific.''\<close>

definition concise_roleFraming :: string where
  \<open>concise_roleFraming =
     ''You are an expert developer writing git commit messages. Analyze the git diff and generate an appropriate commit message.\<newline>'' @
     ''\<newline>''\<close>

definition concise_scaleNote :: string where
  \<open>concise_scaleNote =
     ''## IMPORTANT: SCALE MESSAGE SIZE TO CHANGE SIZE\<newline>'' @
     ''\<newline>'' @
     ''- SMALL changes (1-10 lines, simple edits): Just the summary line, no body needed\<newline>'' @
     ''- MEDIUM changes (10-50 lines, single feature): Summary + 1-2 sentence description\<newline>'' @
     ''- LARGE changes (50+ lines, multiple features): Full format with bullet points\<newline>'' @
     ''\<newline>'' @
     ''Do NOT over-explain simple changes. A one-line fix deserves a one-line commit message.\<newline>'' @
     ''\<newline>''\<close>

definition concise_outputFormat :: string where
  \<open>concise_outputFormat =
     ''## OUTPUT FORMAT (Conventional Commits):\<newline>'' @
     ''\<newline>'' @
     ''For SMALL changes:\<newline>'' @
     ''<type>(<scope>): <concise summary describing the change>\<newline>'' @
     ''\<newline>'' @
     ''For MEDIUM changes:\<newline>'' @
     ''<type>(<scope>): <concise summary>\<newline>'' @
     ''\<newline>'' @
     ''<1-2 sentences explaining the change>\<newline>'' @
     ''\<newline>'' @
     ''For LARGE changes only:\<newline>'' @
     ''<type>(<scope>): <concise summary>\<newline>'' @
     ''\<newline>'' @
     ''<paragraph explaining motivation and approach>\<newline>'' @
     ''\<newline>'' @
     ''Key changes:\<newline>'' @
     ''- <change 1>\<newline>'' @
     ''- <change 2>\<newline>'' @
     ''- ...\<newline>'' @
     ''\<newline>'' @
     ''[Optional: Testing/Fixes/Breaking changes sections only if truly relevant]\<newline>'' @
     ''\<newline>''\<close>

definition concise_criticalRules :: string where
  \<open>concise_criticalRules =
     ''## CRITICAL RULES:\<newline>'' @
     ''1. MATCH commit message length to change complexity - small changes get short messages\<newline>'' @
     ''2. NEVER write generic messages like "Update files" or "Make changes"\<newline>'' @
     ''3. Summary line: WHAT changed specifically (max 72 chars)\<newline>'' @
     ''4. Use present tense imperatives: "Add", "Fix", "Refactor", "Update"\<newline>'' @
     ''5. Be specific but concise - don't pad with unnecessary context\<newline>'' @
     ''6. OUTPUT PLAIN TEXT ONLY - no markdown formatting, no backticks around code names\<newline>'' @
     ''7. Do NOT repeat information or state the obvious\<newline>'' @
     ''8. Skip "Key changes" section if there's only 1-2 changes - just describe them in the summary\<newline>'' @
     ''\<newline>''\<close>

definition concise_examples :: string where
  \<open>concise_examples =
     ''## EXAMPLES:\<newline>'' @
     ''\<newline>'' @
     ''SMALL change (good):\<newline>'' @
     ''fix(api): handle null response in getUserData\<newline>'' @
     ''\<newline>'' @
     ''MEDIUM change (good):\<newline>'' @
     ''feat(auth): add remember-me checkbox to login form\<newline>'' @
     ''\<newline>'' @
     ''Add persistent session option that stores auth token in localStorage\<newline>'' @
     ''instead of sessionStorage when user checks "remember me".\<newline>'' @
     ''\<newline>'' @
     ''LARGE change (good):\<newline>'' @
     ''refactor(auth): simplify token validation and fix session handling\<newline>'' @
     ''\<newline>'' @
     ''Restructure authentication flow to improve maintainability and fix\<newline>'' @
     ''edge cases in session management.\<newline>'' @
     ''\<newline>'' @
     ''Key changes:\<newline>'' @
     ''- Extract token validation into validateToken() helper\<newline>'' @
     ''- Fix race condition in concurrent API requests during token refresh\<newline>'' @
     ''- Add null checks for user context in protected routes\<newline>'' @
     ''\<newline>''\<close>

definition concise_closing :: string where
  \<open>concise_closing =
     ''\<newline>'' @
     ''\<newline>'' @
     ''Generate an appropriately sized commit message. Keep it concise.''\<close>

definition roleFraming :: "style \<Rightarrow> string" where
  "roleFraming st = (case st of Thorough \<Rightarrow> thorough_roleFraming | Concise \<Rightarrow> concise_roleFraming)"

definition criticalRules :: "style \<Rightarrow> string" where
  "criticalRules st =
     (case st of Thorough \<Rightarrow> thorough_criticalRules | Concise \<Rightarrow> concise_criticalRules)"

text \<open>The text between the role framing and the rules, and between the rules and the diff.\<close>

definition formatPart :: "style \<Rightarrow> string" where
  "formatPart st =
     (case st of
        Thorough \<Rightarrow> thorough_outputFormat @ commitTypes
      | Concise \<Rightarrow> concise_scaleNote @ concise_outputFormat @ commitTypes)"

definition examplesPart :: "style \<Rightarrow> string" where
  "examplesPart st =
     (case st of Thorough \<Rightarrow> thorough_examples | Concise \<Rightarrow> concise_examples) @ diffHeader"

definition closing :: "style \<Rightarrow> string" where
  "closing st = (case st of Thorough \<Rightarrow> thorough_closing | Concise \<Rightarrow> concise_closing)"

definition buildPrompt :: "style \<Rightarrow> jsstring \<Rightarrow> jsstring" where
  "buildPrompt st diff =
     lit (roleFraming st) @ lit (formatPart st) @ lit (criticalRules st) @
     lit (examplesPart st) @ diff @ lit (closing st)"

section \<open>Effects: the console and the network\<close>

text \<open>
  The two lines \<open>generateCommitMessage\<close> prints when it cuts a diff. The first is
  formatted from the diff's length, the limit and the provider (both sizes divided by
  1024 and printed with \<open>toFixed(1)\<close>); it is recorded with those three values.
\<close>

datatype consoleLine =
    LargeDiffDetected nat nat jsstring
  | SplitTip

text \<open>
  The calls that leave the process: \<open>anthropic.messages.create(params)\<close> and
  \<open>openai.chat.completions.create(params)\<close> on a client built with the key, and
  \<open>fetch(url, init)\<close>.
\<close>

datatype apiCall =
    MessagesCreate jsstring json
  | ChatCompletionsCreate jsstring json
  | Fetch jsstring json

record world =
  console :: "consoleLine list"
  calls :: "apiCall list"

text \<open>
  How an awaited promise settles: with a value, or with an error, of which the message
  is kept. A \<open>fetch\<close> response offers \<open>ok\<close> and the outcome of \<open>json()\<close>.
\<close>

datatype 'a settled = Fulfilled 'a | Rejected jsstring

record response =
  ok :: bool
  body :: "json settled"

record network =
  messagesCreate :: "jsstring \<Rightarrow> json \<Rightarrow> json settled"
  chatCompletionsCreate :: "jsstring \<Rightarrow> json \<Rightarrow> json settled"
  fetch :: "jsstring \<Rightarrow> json \<Rightarrow> response settled"

datatype jsError = Error jsstring

text \<open>The \<open>catch\<close> block of each backend: \<open>throw new Error(`<prefix>${error.message}`)\<close>.\<close>

definition rethrow :: "string \<Rightarrow> jsstring + jsstring \<Rightarrow> jsError + jsstring" where
  "rethrow p r = (case r of Inl m \<Rightarrow> Inl (Error (lit p @ m)) | Inr s \<Rightarrow> Inr s)"

section \<open>Claude\<close>

definition claudeParams :: "jsstring \<Rightarrow> json" where
  "claudeParams prompt =
     JObj [(lit ''model'', JStr (lit ''claude-sonnet-4-20250514'')),
           (lit ''max_tokens'', JNum 1024),
           (lit ''messages'',
            JArr [JObj [(lit ''role'', JStr (lit ''user'')), (lit ''content'', JStr prompt)]])]"

text \<open>The \<open>try\<close> block, given how the awaited call settled: \<open>message.content[0].text.trim()\<close>.\<close>

definition claudeTry :: "host \<Rightarrow> json settled \<Rightarrow> jsstring + jsstring" where
  "claudeTry h r =
     (case r of
        Rejected m \<Rightarrow> Inl m
      | Fulfilled message \<Rightarrow>
          andThen (getProp h (Some message) ''content'') (\<lambda>c.
          andThen (getProp h c ''0'') (\<lambda>e.
          andThen (getProp h e ''text'') (\<lambda>t.
          callTrim h t))))"

definition generateWithClaude ::
  "style \<Rightarrow> host \<Rightarrow> network \<Rightarrow> jsstring \<Rightarrow> config \<Rightarrow> world \<Rightarrow> (jsError + jsstring) \<times> world" where
  "generateWithClaude st h net diff cfg w =
     (case orElse (configKey cfg anthropic) (env h ''ANTHROPIC_API_KEY'') of
        None \<Rightarrow> (Inl (Error (lit ''Anthropic API key not found'')), w)
      | Some apiKey \<Rightarrow>
          if apiKey = [] then (Inl (Error (lit ''Anthropic API key not found'')), w)
          else
            let params = claudeParams (buildPrompt st diff) in
            (rethrow ''Claude API error: '' (claudeTry h (messagesCreate net apiKey params)),
             w\<lparr>calls := calls w @ [MessagesCreate apiKey params]\<rparr>))"

section \<open>OpenAI\<close>

definition openaiParams :: "jsstring \<Rightarrow> json" where
  "openaiParams prompt =
     JObj [(lit ''model'', JStr (lit ''gpt-4-turbo-preview'')),
           (lit ''messages'',
            JArr [JObj [(lit ''role'', JStr (lit ''system'')),
                        (lit ''content'', JStr (lit
  ''You are an expert Git commit message writer. Generate clear, professional commit messages following Conventional Commits format.''))],
                  JObj [(lit ''role'', JStr (lit ''user'')), (lit ''content'', JStr prompt)]]),
           (lit ''temperature'', JNum (3 / 10)),
           (lit ''max_tokens'', JNum 1024)]"

text \<open>\<open>response.choices[0].message.content.trim()\<close>.\<close>

definition openaiTry :: "host \<Rightarrow> json settled \<Rightarrow> jsstring + jsstring" where
  "openaiTry h r =
     (case r of
        Rejected m \<Rightarrow> Inl m
      | Fulfilled response \<Rightarrow>
          andThen (getProp h (Some response) ''choices'') (\<lambda>cs.
          andThen (getProp h cs ''0'') (\<lambda>c.
          andThen (getProp h c ''message'') (\<lambda>m.
          andThen (getProp h m ''content'') (\<lambda>t.
          callTrim h t)))))"

definition generateWithOpenAI ::
  "style \<Rightarrow> host \<Rightarrow> network \<Rightarrow> jsstring \<Rightarrow> config \<Rightarrow> world \<Rightarrow> (jsError + jsstring) \<times> world" where
  "generateWithOpenAI st h net diff cfg w =
     (case orElse (configKey cfg openai) (env h ''OPENAI_API_KEY'') of
        None \<Rightarrow> (Inl (Error (lit ''OpenAI API key not found'')), w)
      | Some apiKey \<Rightarrow>
          if apiKey = [] then (Inl (Error (lit ''OpenAI API key not found'')), w)
          else
            let params = openaiParams (buildPrompt st diff) in
            (rethrow ''OpenAI API error: '' (openaiTry h (chatCompletionsCreate net apiKey params)),
             w\<lparr>calls := calls w @ [ChatCompletionsCreate apiKey params]\<rparr>))"

section \<open>Gemini\<close>

definition geminiUrl :: "jsstring \<Rightarrow> jsstring" where
  "geminiUrl apiKey =
     lit ''https://generativelanguage.googleapis.com/v1beta/models/gemini-pro:generateContent?key=''
     @ apiKey"

text \<open>The second argument of \<open>fetch\<close>; \<open>body\<close> holds the value given to \<open>JSON.stringify\<close>.\<close>

definition geminiInit :: "jsstring \<Rightarrow> json" where
  "geminiInit prompt =
     JObj [(lit ''method'', JStr (lit ''POST'')),
           (lit ''headers'', JObj [(lit ''Content-Type'', JStr (lit ''application/json''))]),
           (lit ''body'',
            JObj [(lit ''contents'', JArr [JObj [(lit ''parts'', JArr [JObj [(lit ''text'', JStr prompt)]])]]),
                  (lit ''generationConfig'',
                   JObj [(lit ''temperature'', JNum (3 / 10)), (lit ''maxOutputTokens'', JNum 1024)])])]"

text \<open>
  The message of \<open>new Error(data.error?.message || 'Gemini API request failed')\<close>, given
  the value of \<open>data.error\<close>.
\<close>

definition geminiFailure :: "host \<Rightarrow> json option \<Rightarrow> jsstring" where
  "geminiFailure h e =
     (case optChain e ''message'' of
        None \<Rightarrow> lit ''Gemini API request failed''
      | Some v \<Rightarrow> if truthy (Some v) then toString h v else lit ''Gemini API request failed'')"

text \<open>
  The \<open>try\<close> block, given how \<open>fetch\<close> settled: the body is parsed, then
  \<open>response.ok\<close> is tested, then \<open>data.candidates[0].content.parts[0].text.trim()\<close>.
\<close>

definition geminiTry :: "host \<Rightarrow> response settled \<Rightarrow> jsstring + jsstring" where
  "geminiTry h r =
     (case r of
        Rejected m \<Rightarrow> Inl m
      | Fulfilled response \<Rightarrow>
          (case body response of
             Rejected m \<Rightarrow> Inl m
           | Fulfilled data \<Rightarrow>
               if \<not> ok response then
                 andThen (getProp h (Some data) ''error'') (\<lambda>e. Inl (geminiFailure h e))
               else
                 andThen (getProp h (Some data) ''candidates'') (\<lambda>cs.
                 andThen (getProp h cs ''0'') (\<lambda>c.
                 andThen (getProp h c ''content'') (\<lambda>ct.
                 andThen (getProp h ct ''parts'') (\<lambda>ps.
                 andThen (getProp h ps ''0'') (\<lambda>p.
                 andThen (getProp h p ''text'') (\<lambda>t.
                 callTrim h t))))))))"

definition generateWithGemini ::
  "style \<Rightarrow> host \<Rightarrow> network \<Rightarrow> jsstring \<Rightarrow> config \<Rightarrow> world \<Rightarrow> (jsError + jsstring) \<times> world" where
  "generateWithGemini st h net diff cfg w =
     (case orElse (configKey cfg gemini) (env h ''GEMINI_API_KEY'') of
        None \<Rightarrow> (Inl (Error (lit ''Gemini API key not found'')), w)
      | Some apiKey \<Rightarrow>
          if apiKey = [] then (Inl (Error (lit ''Gemini API key not found'')), w)
          else
            let init = geminiInit (buildPrompt st diff) in
            (rethrow ''Gemini API error: '' (geminiTry h (fetch net (geminiUrl apiKey) init)),
             w\<lparr>calls := calls w @ [Fetch (geminiUrl apiKey) init]\<rparr>))"

section \<open>Dispatch (\<open>generateCommitMessage\<close>)\<close>

text \<open>
  \<open>DIFF_LIMITS[provider]\<close>. \<open>DIFF_LIMITS\<close> is an object literal, so besides its three
  own properties a lookup finds what it inherits from \<open>Object.prototype\<close>: under each
  of the names below a function (under \<open>__proto__\<close> the prototype object itself),
  which is truthy and converts to the number \<open>NaN\<close>.
\<close>

datatype looked = Number nat | NotANumber | Undefined

definition objectPrototypeNames :: "string list" where
  "objectPrototypeNames =
     [''constructor'', ''__defineGetter__'', ''__defineSetter__'', ''hasOwnProperty'',
      ''__lookupGetter__'', ''__lookupSetter__'', ''isPrototypeOf'', ''propertyIsEnumerable'',
      ''toString'', ''valueOf'', ''__proto__'', ''toLocaleString'']"

definition DIFF_LIMITS :: "jsstring \<Rightarrow> looked" where
  "DIFF_LIMITS provider =
     (if provider = lit ''claude'' then Number 100000
      else if provider = lit ''openai'' then Number 80000
      else if provider = lit ''gemini'' then Number 25000
      else if provider \<in> set (map lit objectPrototypeNames) then NotANumber
      else Undefined)"

text \<open>\<open>const limit = DIFF_LIMITS[provider] || 50000\<close>.\<close>

definition limitFor :: "jsstring \<Rightarrow> looked" where
  "limitFor provider =
     (case DIFF_LIMITS provider of
        Number n \<Rightarrow> if n = 0 then Number 50000 else Number n
      | NotANumber \<Rightarrow> NotANumber
      | Undefined \<Rightarrow> Number 50000)"

text \<open>
  The first half of \<open>generateCommitMessage\<close>: \<open>diff.substring(0, limit)\<close> and the
  advisory under \<open>diff.length > limit\<close>. With a limit that converts to \<open>NaN\<close>,
  \<open>substring(0, limit)\<close> is the empty string and the comparison is false. The result
  is \<open>truncatedDiff\<close> and the world after the \<open>console.log\<close> calls, if any.
\<close>

definition boundDiff :: "jsstring \<Rightarrow> jsstring \<Rightarrow> world \<Rightarrow> jsstring \<times> world" where
  "boundDiff diff provider w =
     (case limitFor provider of
        Number limit \<Rightarrow>
          (take limit diff,
           if length diff > limit
           then w\<lparr>console := console w @ [LargeDiffDetected (length diff) limit provider, SplitTip]\<rparr>
           else w)
      | _ \<Rightarrow> ([], w))"

definition generateCommitMessage ::
  "style \<Rightarrow> host \<Rightarrow> network \<Rightarrow> jsstring \<Rightarrow> jsstring \<Rightarrow> config \<Rightarrow> world
     \<Rightarrow> (jsError + jsstring) \<times> world" where
  "generateCommitMessage st h net diff provider cfg w =
     (case boundDiff diff provider w of
        (truncatedDiff, w') \<Rightarrow>
          if provider = lit ''claude'' then generateWithClaude st h net truncatedDiff cfg w'
          else if provider = lit ''openai'' then generateWithOpenAI st h net truncatedDiff cfg w'
          else if provider = lit ''gemini'' then generateWithGemini st h net truncatedDiff cfg w'
          else (Inl (Error (lit ''Unknown provider: '' @ provider)), w'))"

section \<open>Sample inputs\<close>

text \<open>
  A host, a network and a world to run the model on: the environment holds a key for
  Claude and one for Gemini, Claude answers with a message, the OpenAI client fails to
  connect, and Gemini answers with status 400 and an error body.
\<close>

definition emptyWorld :: world where
  "emptyWorld = \<lparr>console = [], calls = []\<rparr>"

definition exampleHost :: host where
  "exampleHost =
     \<lparr>env = (\<lambda>v. if v = ''ANTHROPIC_API_KEY'' then Some (lit ''tok-123'')
                 else if v = ''GEMINI_API_KEY'' then Some (lit ''g-456'') else None),
      typeErrorMessage = (\<lambda>v k. lit ''Cannot read properties of undefined''),
      toStringNonString = (\<lambda>v. lit ''[object Object]'')\<rparr>"

definition exampleNetwork :: network where
  "exampleNetwork =
     \<lparr>messagesCreate = (\<lambda>key params.
        Fulfilled (JObj [(lit ''role'', JStr (lit ''assistant'')),
                         (lit ''content'',
                          JArr [JObj [(lit ''type'', JStr (lit ''text'')),
                                      (lit ''text'', JStr (lit '' fix: typo\<newline>''))]])])),
      chatCompletionsCreate = (\<lambda>key params. Rejected (lit ''Connection error.'')),
      fetch = (\<lambda>url init.
        Fulfilled \<lparr>ok = False,
                   body = Fulfilled (JObj [(lit ''error'',
                            JObj [(lit ''code'', JNum 400),
                                  (lit ''message'', JStr (lit ''API key not valid''))])])\<rparr>)\<rparr>"

section \<open>Strings\<close>

lemma of_char_nat_bound: "(of_char c :: nat) < 256"
proof -
  have "(of_char c :: nat) mod 256 = of_char c" by (rule of_char_mod_256)
  moreover have "(of_char c :: nat) mod 256 < 256" by simp
  ultimately show ?thesis by simp
qed

lemma unat_of_char: "unat (of_char c :: 16 word) = of_char c"
proof -
  have "(of_char c :: 16 word) = of_nat (of_char c)" by (simp add: of_nat_of_char)
  then have "unat (of_char c :: 16 word) = (of_char c :: nat) mod 2 ^ 16"
    by (simp add: unat_of_nat)
  moreover have "(of_char c :: nat) < 2 ^ 16"
    by (rule less_trans [OF of_char_nat_bound]) simp
  ultimately show ?thesis by simp
qed

lemma of_char_word_eq_iff: "(of_char c :: 16 word) = of_char d \<longleftrightarrow> c = d"
proof
  assume "(of_char c :: 16 word) = of_char d"
  then have "unat (of_char c :: 16 word) = unat (of_char d :: 16 word)" by simp
  then have "(of_char c :: nat) = of_char d" by (simp only: unat_of_char)
  then show "c = d" by simp
qed simp

lemma lit_eq_iff: "lit a = lit b \<longleftrightarrow> a = b"
  unfolding lit_def by (rule inj_map_eq_map) (simp add: inj_on_def of_char_word_eq_iff)

lemma lit_append: "lit (a @ b) = lit a @ lit b"
  by (simp add: lit_def)

lemma dropWhile_trim:
  "dropWhile isWhiteSpace s =
     trim s @ rev (takeWhile isWhiteSpace (rev (dropWhile isWhiteSpace s)))"
proof -
  let ?r = "dropWhile isWhiteSpace s"
  have "rev (takeWhile isWhiteSpace (rev ?r) @ dropWhile isWhiteSpace (rev ?r)) = ?r"
    by (simp only: takeWhile_dropWhile_id rev_rev_ident)
  then have "rev (dropWhile isWhiteSpace (rev ?r)) @ rev (takeWhile isWhiteSpace (rev ?r)) = ?r"
    by (simp only: rev_append)
  then show ?thesis by (simp only: trim_def)
qed

lemma trim_decomp:
  "\<exists>a b. s = a @ trim s @ b \<and> (\<forall>c\<in>set a. isWhiteSpace c) \<and> (\<forall>c\<in>set b. isWhiteSpace c)"
proof -
  let ?a = "takeWhile isWhiteSpace s"
  let ?b = "rev (takeWhile isWhiteSpace (rev (dropWhile isWhiteSpace s)))"
  have "s = ?a @ dropWhile isWhiteSpace s" by simp
  then have "s = ?a @ trim s @ ?b" using dropWhile_trim [of s] by simp
  moreover have "\<forall>c\<in>set ?a. isWhiteSpace c" by (auto dest: set_takeWhileD)
  moreover have "\<forall>c\<in>set ?b. isWhiteSpace c" by (auto dest: set_takeWhileD)
  ultimately show ?thesis by blast
qed

lemma trim_last: "trim s \<noteq> [] \<Longrightarrow> \<not> isWhiteSpace (last (trim s))"
  unfolding trim_def by (simp add: last_rev hd_dropWhile)

lemma trim_hd:
  assumes "trim s \<noteq> []"
  shows "\<not> isWhiteSpace (hd (trim s))"
proof -
  let ?r = "dropWhile isWhiteSpace s"
  have "?r \<noteq> []"
  proof
    assume "?r = []"
    then have "trim s = []" by (simp only: trim_def rev.simps dropWhile.simps)
    with assms show False by simp
  qed
  then have "\<not> isWhiteSpace (hd ?r)" by (rule hd_dropWhile)
  moreover have "hd ?r = hd (trim s)" using assms by (subst dropWhile_trim) simp
  ultimately show ?thesis by simp
qed

lemma trim_blank: "(\<forall>c\<in>set s. isWhiteSpace c) \<Longrightarrow> trim s = []"
  by (auto simp add: trim_def dest: set_dropWhileD)

section \<open>Reading a response\<close>

lemma andThen_Inr_iff: "andThen r f = Inr y \<longleftrightarrow> (\<exists>x. r = Inr x \<and> f x = Inr y)"
  by (cases r) (simp_all add: andThen_def)

lemma member_of_JNull: "member_of j k = Some x \<Longrightarrow> j \<noteq> JNull"
  by (cases j) simp_all

lemma getProp_member: "member_of j k = Some x \<Longrightarrow> getProp h (Some j) k = Inr (Some x)"
  by (cases j) (simp_all add: getProp_def)

lemma getProp_Inr_iff:
  "getProp h v k = Inr x \<longleftrightarrow> (\<exists>j. v = Some j \<and> j \<noteq> JNull \<and> x = member_of j k)"
  by (auto simp add: getProp_def split: option.splits json.splits)

lemma callTrim_Inr_iff: "callTrim h v = Inr s \<longleftrightarrow> (\<exists>t. v = Some (JStr t) \<and> s = trim t)"
  by (auto simp add: callTrim_def split: option.splits json.splits)

lemma rethrow_Inr_iff: "rethrow p r = Inr s \<longleftrightarrow> r = Inr s"
  by (cases r) (simp_all add: rethrow_def)

lemma claudeTry_Inr_iff:
  "claudeTry h r = Inr s \<longleftrightarrow>
     (\<exists>msg c e t. r = Fulfilled msg \<and> member_of msg ''content'' = Some c \<and>
        member_of c ''0'' = Some e \<and> member_of e ''text'' = Some (JStr t) \<and> s = trim t)"
proof (cases r)
  case (Rejected m)
  then show ?thesis by (simp add: claudeTry_def)
next
  case (Fulfilled msg)
  show ?thesis
    unfolding Fulfilled claudeTry_def settled.case andThen_Inr_iff getProp_Inr_iff callTrim_Inr_iff
    by (auto dest: member_of_JNull) metis+
qed


lemma openaiTry_Inr_iff:
  "openaiTry h r = Inr s \<longleftrightarrow>
     (\<exists>resp cs c m t. r = Fulfilled resp \<and> member_of resp ''choices'' = Some cs \<and>
        member_of cs ''0'' = Some c \<and> member_of c ''message'' = Some m \<and>
        member_of m ''content'' = Some (JStr t) \<and> s = trim t)"
proof (cases r)
  case (Rejected m)
  then show ?thesis by (simp add: openaiTry_def)
next
  case (Fulfilled resp)
  show ?thesis
    unfolding Fulfilled openaiTry_def settled.case andThen_Inr_iff getProp_Inr_iff callTrim_Inr_iff
    by (auto dest: member_of_JNull) metis+
qed

lemma geminiPath_Inr_iff:
  "andThen (getProp h (Some data) ''candidates'') (\<lambda>cs.
   andThen (getProp h cs ''0'') (\<lambda>c.
   andThen (getProp h c ''content'') (\<lambda>ct.
   andThen (getProp h ct ''parts'') (\<lambda>ps.
   andThen (getProp h ps ''0'') (\<lambda>p.
   andThen (getProp h p ''text'') (\<lambda>t.
   callTrim h t)))))) = Inr s \<longleftrightarrow>
     (\<exists>cs c ct ps p t. member_of data ''candidates'' = Some cs \<and>
        member_of cs ''0'' = Some c \<and> member_of c ''content'' = Some ct \<and>
        member_of ct ''parts'' = Some ps \<and> member_of ps ''0'' = Some p \<and>
        member_of p ''text'' = Some (JStr t) \<and> s = trim t)"
  unfolding andThen_Inr_iff getProp_Inr_iff callTrim_Inr_iff
  by (auto dest: member_of_JNull) metis+

lemma geminiTry_Inr_iff:
  "geminiTry h r = Inr s \<longleftrightarrow>
     (\<exists>resp data cs c ct ps p t. r = Fulfilled resp \<and> ok resp \<and> body resp = Fulfilled data \<and>
        member_of data ''candidates'' = Some cs \<and>
        member_of cs ''0'' = Some c \<and> member_of c ''content'' = Some ct \<and>
        member_of ct ''parts'' = Some ps \<and> member_of ps ''0'' = Some p \<and>
        member_of p ''text'' = Some (JStr t) \<and> s = trim t)"
proof (cases r)
  case (Rejected m)
  then show ?thesis by (simp add: geminiTry_def)
next
  case (Fulfilled resp)
  show ?thesis
  proof (cases "body resp")
    case (Rejected m)
    then show ?thesis using Fulfilled by (simp add: geminiTry_def)
  next
    case data: (Fulfilled data)
    show ?thesis
    proof (cases "ok resp")
      case True
      then show ?thesis
        using Fulfilled data geminiPath_Inr_iff [of h data s]
        by (simp add: geminiTry_def)
    next
      case False
      then show ?thesis
        using Fulfilled data
        by (simp add: geminiTry_def andThen_def split: sum.splits)
    qed
  qed
qed

section \<open>Bounding and dispatch\<close>

lemma limitFor_claude: "limitFor (lit ''claude'') = Number 100000"
  by (simp add: limitFor_def DIFF_LIMITS_def)

lemma limitFor_openai: "limitFor (lit ''openai'') = Number 80000"
  by (simp add: limitFor_def DIFF_LIMITS_def lit_eq_iff)

lemma limitFor_gemini: "limitFor (lit ''gemini'') = Number 25000"
  by (simp add: limitFor_def DIFF_LIMITS_def lit_eq_iff)

lemma limitFor_inherited:
  "k \<in> set objectPrototypeNames \<Longrightarrow> limitFor (lit k) = NotANumber"
  by (auto simp add: limitFor_def DIFF_LIMITS_def lit_eq_iff objectPrototypeNames_def)

lemma limitFor_default:
  "provider \<notin> {lit ''claude'', lit ''openai'', lit ''gemini''} \<Longrightarrow>
   provider \<notin> set (map lit objectPrototypeNames) \<Longrightarrow> limitFor provider = Number 50000"
  by (simp add: limitFor_def DIFF_LIMITS_def)

lemma boundDiff_Number:
  "limitFor provider = Number limit \<Longrightarrow>
   boundDiff diff provider w =
     (if length diff > limit
      then (take limit diff,
            w\<lparr>console := console w @ [LargeDiffDetected (length diff) limit provider, SplitTip]\<rparr>)
      else (diff, w))"
  by (simp add: boundDiff_def)

lemma boundDiff_calls: "calls (snd (boundDiff diff provider w)) = calls w"
  by (simp add: boundDiff_def split: looked.splits)

lemma boundDiff_Nil: "boundDiff [] provider w = ([], w)"
  by (simp add: boundDiff_def split: looked.splits)

lemma dispatch_claude:
  "generateCommitMessage st h net diff (lit ''claude'') cfg w =
     generateWithClaude st h net (fst (boundDiff diff (lit ''claude'') w)) cfg
       (snd (boundDiff diff (lit ''claude'') w))"
  by (simp add: generateCommitMessage_def split: prod.splits)

lemma dispatch_openai:
  "generateCommitMessage st h net diff (lit ''openai'') cfg w =
     generateWithOpenAI st h net (fst (boundDiff diff (lit ''openai'') w)) cfg
       (snd (boundDiff diff (lit ''openai'') w))"
  by (simp add: generateCommitMessage_def lit_eq_iff split: prod.splits)

lemma dispatch_gemini:
  "generateCommitMessage st h net diff (lit ''gemini'') cfg w =
     generateWithGemini st h net (fst (boundDiff diff (lit ''gemini'') w)) cfg
       (snd (boundDiff diff (lit ''gemini'') w))"
  by (simp add: generateCommitMessage_def lit_eq_iff split: prod.splits)

lemma dispatch_unknown:
  "provider \<notin> {lit ''claude'', lit ''openai'', lit ''gemini''} \<Longrightarrow>
   generateCommitMessage st h net diff provider cfg w =
     (Inl (Error (lit ''Unknown provider: '' @ provider)), snd (boundDiff diff provider w))"
  by (simp add: generateCommitMessage_def split: prod.splits)

lemma generateWithClaude_key:
  "orElse (configKey cfg anthropic) (env h ''ANTHROPIC_API_KEY'') = Some key \<Longrightarrow> key \<noteq> [] \<Longrightarrow>
   generateWithClaude st h net d cfg w =
     (rethrow ''Claude API error: ''
        (claudeTry h (messagesCreate net key (claudeParams (buildPrompt st d)))),
      w\<lparr>calls := calls w @ [MessagesCreate key (claudeParams (buildPrompt st d))]\<rparr>)"
  by (simp add: generateWithClaude_def Let_def)

lemma generateWithOpenAI_key:
  "orElse (configKey cfg openai) (env h ''OPENAI_API_KEY'') = Some key \<Longrightarrow> key \<noteq> [] \<Longrightarrow>
   generateWithOpenAI st h net d cfg w =
     (rethrow ''OpenAI API error: ''
        (openaiTry h (chatCompletionsCreate net key (openaiParams (buildPrompt st d)))),
      w\<lparr>calls := calls w @ [ChatCompletionsCreate key (openaiParams (buildPrompt st d))]\<rparr>)"
  by (simp add: generateWithOpenAI_def Let_def)

lemma generateWithGemini_key:
  "orElse (configKey cfg gemini) (env h ''GEMINI_API_KEY'') = Some key \<Longrightarrow> key \<noteq> [] \<Longrightarrow>
   generateWithGemini st h net d cfg w =
     (rethrow ''Gemini API error: ''
        (geminiTry h (fetch net (geminiUrl key) (geminiInit (buildPrompt st d)))),
      w\<lparr>calls := calls w @ [Fetch (geminiUrl key) (geminiInit (buildPrompt st d))]\<rparr>)"
  by (simp add: generateWithGemini_def Let_def)

lemma generateWithClaude_nokey:
  "orElse (configKey cfg anthropic) (env h ''ANTHROPIC_API_KEY'') \<in> {None, Some []} \<Longrightarrow>
   generateWithClaude st h net d cfg w = (Inl (Error (lit ''Anthropic API key not found'')), w)"
  by (auto simp add: generateWithClaude_def)

lemma generateWithOpenAI_nokey:
  "orElse (configKey cfg openai) (env h ''OPENAI_API_KEY'') \<in> {None, Some []} \<Longrightarrow>
   generateWithOpenAI st h net d cfg w = (Inl (Error (lit ''OpenAI API key not found'')), w)"
  by (auto simp add: generateWithOpenAI_def)

lemma generateWithGemini_nokey:
  "orElse (configKey cfg gemini) (env h ''GEMINI_API_KEY'') \<in> {None, Some []} \<Longrightarrow>
   generateWithGemini st h net d cfg w = (Inl (Error (lit ''Gemini API key not found'')), w)"
  by (auto simp add: generateWithGemini_def)

lemma orElse_env: "a \<in> {None, Some []} \<Longrightarrow> orElse a b = b"
  by (auto simp add: orElse_def)

section \<open>The claims\<close>

text \<open>
  Claim C7. For every diff text \<open>d\<close> and both style variants, \<open>buildPrompt\<close> is a
  function of its two arguments whose result contains \<open>d\<close> verbatim. The prompt of
  each style begins with that style's role framing and contains its rules block, both
  written out below as they stand in the source; and the text around the diff is the
  same for every diff: a fixed text that ends with the heading of the diff section, then
  the diff itself, then the style's closing instruction.
\<close>

theorem template_determinism:
  \<open>sublist d (buildPrompt st d) \<and>
   prefix (lit
     (''You are an expert developer writing a detailed git commit message. Analyze the git diff carefully and generate a professional, comprehensive commit message.\<newline>'' @
      ''\<newline>''))
     (buildPrompt Thorough d) \<and>
   sublist (lit
     (''## CRITICAL RULES:\<newline>'' @
      ''1. NEVER write generic messages like "Update files" or "Make changes"\<newline>'' @
      ''2. The summary line must describe WHAT specifically changed (max 72 chars)\<newline>'' @
      ''3. Analyze the ACTUAL code changes - mention specific functions, components, variables\<newline>'' @
      ''4. Explain WHY the change was made, not just what files were touched\<newline>'' @
      ''5. Group related changes logically in the bullet points\<newline>'' @
      ''6. Use technical terminology appropriate to the codebase\<newline>'' @
      ''7. If there are multiple distinct changes, mention all of them\<newline>'' @
      ''8. Use present tense imperatives: "Add", "Fix", "Refactor", "Update"\<newline>'' @
      ''9. Be specific: instead of "improve code", say "extract validation logic into separate helper function"\<newline>'' @
      ''10. If the diff shows HTML/CSS/JS changes together, describe the feature being built, not just "update HTML, JS, CSS"\<newline>'' @
      ''\<newline>''))
     (buildPrompt Thorough d) \<and>
   (\<exists>before. suffix (''## GIT DIFF TO ANALYZE:\<newline>'' @ ''\<newline>'') before \<and>
      (\<forall>d'. buildPrompt Thorough d' =
         lit before @ d' @
         lit (''\<newline>'' @
              ''\<newline>'' @
              ''Generate the commit message now. Be thorough and specific.''))) \<and>
   prefix (lit
     (''You are an expert developer writing git commit messages. Analyze the git diff and generate an appropriate commit message.\<newline>'' @
      ''\<newline>''))
     (buildPrompt Concise d) \<and>
   sublist (lit
     (''## CRITICAL RULES:\<newline>'' @
      ''1. MATCH commit message length to change complexity - small changes get short messages\<newline>'' @
      ''2. NEVER write generic messages like "Update files" or "Make changes"\<newline>'' @
      ''3. Summary line: WHAT changed specifically (max 72 chars)\<newline>'' @
      ''4. Use present tense imperatives: "Add", "Fix", "Refactor", "Update"\<newline>'' @
      ''5. Be specific but concise - don't pad with unnecessary context\<newline>'' @
      ''6. OUTPUT PLAIN TEXT ONLY - no markdown formatting, no backticks around code names\<newline>'' @
      ''7. Do NOT repeat information or state the obvious\<newline>'' @
      ''8. Skip "Key changes" section if there's only 1-2 changes - just describe them in the summary\<newline>'' @
      ''\<newline>''))
     (buildPrompt Concise d) \<and>
   (\<exists>before. suffix (''## GIT DIFF TO ANALYZE:\<newline>'' @ ''\<newline>'') before \<and>
      (\<forall>d'. buildPrompt Concise d' =
         lit before @ d' @
         lit (''\<newline>'' @
              ''\<newline>'' @
              ''Generate an appropriately sized commit message. Keep it concise.'')))\<close>
proof -
  have d: "sublist d (buildPrompt st d)"
    unfolding buildPrompt_def by (metis append.assoc sublist_appendI)
  have t: "buildPrompt Thorough x =
      lit (thorough_roleFraming @ formatPart Thorough @ thorough_criticalRules @
           thorough_examples @ diffHeader) @ x @ lit thorough_closing" for x
    by (simp add: buildPrompt_def roleFraming_def criticalRules_def examplesPart_def closing_def
        lit_append)
  have c: "buildPrompt Concise x =
      lit (concise_roleFraming @ formatPart Concise @ concise_criticalRules @
           concise_examples @ diffHeader) @ x @ lit concise_closing" for x
    by (simp add: buildPrompt_def roleFraming_def criticalRules_def examplesPart_def closing_def
        lit_append)
  have td: "\<exists>before. suffix diffHeader before \<and>
      (\<forall>d'. buildPrompt Thorough d' = lit before @ d' @ lit thorough_closing)"
    by (rule exI [of _ "thorough_roleFraming @ formatPart Thorough @ thorough_criticalRules @
           thorough_examples @ diffHeader"]) (simp add: t suffix_def)
  have cd: "\<exists>before. suffix diffHeader before \<and>
      (\<forall>d'. buildPrompt Concise d' = lit before @ d' @ lit concise_closing)"
    by (rule exI [of _ "concise_roleFraming @ formatPart Concise @ concise_criticalRules @
           concise_examples @ diffHeader"]) (simp add: c suffix_def)
  have tr: "prefix (lit thorough_roleFraming) (buildPrompt Thorough d)"
    by (simp add: t lit_append)
  have cr: "prefix (lit concise_roleFraming) (buildPrompt Concise d)"
    by (simp add: c lit_append)
  have tc: "sublist (lit thorough_criticalRules) (buildPrompt Thorough d)"
    unfolding t lit_append by (metis append.assoc sublist_appendI)
  have cc: "sublist (lit concise_criticalRules) (buildPrompt Concise d)"
    unfolding c lit_append by (metis append.assoc sublist_appendI)
  from d tr tc td cr cc cd show ?thesis
    unfolding diffHeader_def thorough_closing_def concise_closing_def thorough_roleFraming_def
      thorough_criticalRules_def concise_roleFraming_def concise_criticalRules_def
    by (intro conjI)
qed

text \<open>
  Claim C3. The claim gives bounding the fallback limit of 50000 characters for every
  provider name outside the three it knows. \<open>constructor\<close> is such a name, and a diff
  of 50001 characters exceeds the fallback limit; yet the lookup in \<open>DIFF_LIMITS\<close>
  finds the inherited \<open>Object.prototype.constructor\<close>, the limit is not a number, and
  bounding yields the empty string and prints no advisory.
\<close>

theorem inherited_name_escapes_default_limit:
  "lit ''constructor'' \<notin> {lit ''claude'', lit ''openai'', lit ''gemini''} \<and>
   length (replicate 50001 c) > 50000 \<and>
   boundDiff (replicate 50001 c) (lit ''constructor'') w = ([], w)"
  by (simp add: boundDiff_def limitFor_inherited objectPrototypeNames_def lit_eq_iff)

text \<open>
  For every provider name that \<open>Object.prototype\<close> does not define, bounding is as
  claim C3 describes it.
\<close>

lemma bounding_known:
  assumes "provider \<notin> set (map lit objectPrototypeNames)"
      and "limit = (if provider = lit ''claude'' then 100000 else if provider = lit ''openai'' then 80000
                    else if provider = lit ''gemini'' then 25000 else 50000)"
      and "(bounded, w') = boundDiff diff provider w"
    shows "(length diff > limit \<longrightarrow> bounded = take limit diff \<and> length bounded = limit \<and> prefix bounded diff \<and>
              w' = w\<lparr>console := console w @ [LargeDiffDetected (length diff) limit provider, SplitTip]\<rparr>)
         \<and> (length diff \<le> limit \<longrightarrow> bounded = diff \<and> w' = w)"
proof -
  have "limitFor provider = Number limit"
    using assms(1,2) limitFor_default [of provider]
    by (auto simp add: limitFor_claude limitFor_openai limitFor_gemini lit_eq_iff)
  then show ?thesis
    using assms(3) by (auto simp add: boundDiff_Number take_is_prefix)
qed

text \<open>
  An unknown provider with a diff of 50001 characters: the advisory is printed, so the
  diff has been bounded, before the error is raised.
\<close>

theorem unknown_provider_is_bounded_first:
  "lit ''foo'' \<notin> {lit ''claude'', lit ''openai'', lit ''gemini''} \<and>
   generateCommitMessage Thorough exampleHost exampleNetwork (replicate 50001 0x61) (lit ''foo'')
       defaultConfig emptyWorld =
     (Inl (Error (lit ''Unknown provider: foo'')),
      \<lparr>console = [LargeDiffDetected 50001 50000 (lit ''foo''), SplitTip], calls = []\<rparr>)"
proof -
  have p: "lit ''foo'' \<notin> {lit ''claude'', lit ''openai'', lit ''gemini''}"
    by (simp add: lit_eq_iff)
  have q: "lit ''foo'' \<notin> set (map lit objectPrototypeNames)"
    by (simp add: lit_eq_iff objectPrototypeNames_def)
  show ?thesis
    using p by (simp add: dispatch_unknown boundDiff_Number [OF limitFor_default [OF p q]]
        emptyWorld_def lit_append [symmetric])
qed

text \<open>
  Claim C2, amended. For every diff text and every provider name outside the three,
  dispatch raises \<open>Unknown provider\<close> with the name attached and makes no network
  call (so no prompt is sent); the world it leaves is the one bounding left, the
  advisory included when bounding printed one.
\<close>

theorem unknown_provider_rejected:
  assumes "provider \<notin> {lit ''claude'', lit ''openai'', lit ''gemini''}"
  shows "fst (generateCommitMessage st h net diff provider cfg w) =
           Inl (Error (lit ''Unknown provider: '' @ provider)) \<and>
         snd (generateCommitMessage st h net diff provider cfg w) = snd (boundDiff diff provider w) \<and>
         calls (snd (generateCommitMessage st h net diff provider cfg w)) = calls w"
  by (simp add: dispatch_unknown [OF assms] boundDiff_calls)

theorem unknown_provider_rejected_witness:
  "generateCommitMessage Concise exampleHost exampleNetwork (lit ''+ a line'') (lit ''foo'')
       defaultConfig emptyWorld =
     (Inl (Error (lit ''Unknown provider: foo'')), emptyWorld)"
proof -
  have p: "lit ''foo'' \<notin> {lit ''claude'', lit ''openai'', lit ''gemini''}"
    by (simp add: lit_eq_iff)
  have q: "lit ''foo'' \<notin> set (map lit objectPrototypeNames)"
    by (simp add: lit_eq_iff objectPrototypeNames_def)
  have b: "boundDiff (lit ''+ a line'') (lit ''foo'') emptyWorld = (lit ''+ a line'', emptyWorld)"
    by (subst boundDiff_Number [OF limitFor_default [OF p q]]) (simp add: lit_def)
  show ?thesis
    using unknown_provider_rejected [OF p, of Concise exampleHost exampleNetwork "lit ''+ a line''"
        defaultConfig emptyWorld]
    by (simp add: b prod_eq_iff lit_append [symmetric])
qed

text \<open>
  The default configuration holds the empty string as the Anthropic secret; with the
  environment variable set, the request is made with the variable's value, not with the
  configuration's entry.
\<close>

theorem empty_config_secret_yields_to_environment:
  "configKey defaultConfig anthropic = Some [] \<and>
   env exampleHost ''ANTHROPIC_API_KEY'' = Some (lit ''tok-123'') \<and>
   calls (snd (generateCommitMessage Thorough exampleHost exampleNetwork [] (lit ''claude'')
       defaultConfig emptyWorld)) =
     [MessagesCreate (lit ''tok-123'') (claudeParams (buildPrompt Thorough []))]"
proof -
  have k: "orElse (configKey defaultConfig anthropic) (env exampleHost ''ANTHROPIC_API_KEY'') =
             Some (lit ''tok-123'')"
    by (simp add: orElse_def configKey_def defaultConfig_def exampleHost_def)
  have n: "lit ''tok-123'' \<noteq> []" by (simp add: lit_def)
  show ?thesis
    by (simp add: dispatch_claude boundDiff_Nil generateWithClaude_key [OF k n])
       (simp add: configKey_def defaultConfig_def exampleHost_def emptyWorld_def)
qed

text \<open>
  Claim C1, amended. For each of the three backends (with its configuration entry, its
  environment variable, the name in its error and the call it makes): a non-empty
  configuration entry is the secret of the call; when the entry is missing or empty, a
  non-empty environment variable is; when neither is a non-empty string, dispatch
  raises \<open><name> API key not found\<close> and makes no network call.
\<close>

theorem credential_precedence:
  assumes "(provider, sel, var, name, call) \<in>
     {(lit ''claude'', anthropic, ''ANTHROPIC_API_KEY'', ''Anthropic'',
         \<lambda>k. MessagesCreate k (claudeParams p)),
      (lit ''openai'', openai, ''OPENAI_API_KEY'', ''OpenAI'',
         \<lambda>k. ChatCompletionsCreate k (openaiParams p)),
      (lit ''gemini'', gemini, ''GEMINI_API_KEY'', ''Gemini'',
         \<lambda>k. Fetch (geminiUrl k) (geminiInit p))}"
    and "p = buildPrompt st (fst (boundDiff diff provider w))"
    and "R = generateCommitMessage st h net diff provider cfg w"
  shows "(\<forall>c. configKey cfg sel = Some c \<and> c \<noteq> [] \<longrightarrow> calls (snd R) = calls w @ [call c]) \<and>
         (\<forall>e. configKey cfg sel \<in> {None, Some []} \<and> env h var = Some e \<and> e \<noteq> [] \<longrightarrow>
              calls (snd R) = calls w @ [call e]) \<and>
         (configKey cfg sel \<in> {None, Some []} \<and> env h var \<in> {None, Some []} \<longrightarrow>
              fst R = Inl (Error (lit (name @ '' API key not found''))) \<and> calls (snd R) = calls w)"
proof -
  have used: "calls (snd R) = calls w @ [call k]"
    if "orElse (configKey cfg sel) (env h var) = Some k" and "k \<noteq> []" for k
    using assms(1) that
    by (auto simp add: assms(2,3) dispatch_claude dispatch_openai dispatch_gemini
        generateWithClaude_key generateWithOpenAI_key generateWithGemini_key boundDiff_calls)
  have missing: "fst R = Inl (Error (lit (name @ '' API key not found''))) \<and> calls (snd R) = calls w"
    if "orElse (configKey cfg sel) (env h var) \<in> {None, Some []}"
    using assms(1) that
    by (auto simp add: assms(3) dispatch_claude dispatch_openai dispatch_gemini
        generateWithClaude_nokey generateWithOpenAI_nokey generateWithGemini_nokey boundDiff_calls)
  show ?thesis
  proof (intro conjI allI impI)
    fix c assume "configKey cfg sel = Some c \<and> c \<noteq> []"
    then show "calls (snd R) = calls w @ [call c]"
      by (intro used) (simp_all add: orElse_def)
  next
    fix e assume "configKey cfg sel \<in> {None, Some []} \<and> env h var = Some e \<and> e \<noteq> []"
    then show "calls (snd R) = calls w @ [call e]"
      by (intro used) (auto simp add: orElse_def)
  next
    assume a: "configKey cfg sel \<in> {None, Some []} \<and> env h var \<in> {None, Some []}"
    then have "orElse (configKey cfg sel) (env h var) \<in> {None, Some []}"
      by (auto simp add: orElse_def)
    then show "fst R = Inl (Error (lit (name @ '' API key not found'')))" "calls (snd R) = calls w"
      using missing by simp_all
  qed
qed


theorem credential_precedence_witness:
  "calls (snd (generateCommitMessage Thorough exampleHost exampleNetwork (lit ''+ a line'')
       (lit ''claude'')
       (defaultConfig\<lparr>apiKeys :=
          Some \<lparr>anthropic = Some (lit ''sk-cfg''), openai = Some [], gemini = Some []\<rparr>\<rparr>)
       emptyWorld)) =
     [MessagesCreate (lit ''sk-cfg'')
        (claudeParams (buildPrompt Thorough
           (fst (boundDiff (lit ''+ a line'') (lit ''claude'') emptyWorld))))] \<and>
   calls (snd (generateCommitMessage Thorough exampleHost exampleNetwork (lit ''+ a line'')
       (lit ''gemini'') defaultConfig emptyWorld)) =
     [Fetch (geminiUrl (lit ''g-456''))
        (geminiInit (buildPrompt Thorough
           (fst (boundDiff (lit ''+ a line'') (lit ''gemini'') emptyWorld))))] \<and>
   generateCommitMessage Thorough exampleHost exampleNetwork (lit ''+ a line'')
       (lit ''openai'') defaultConfig emptyWorld =
     (Inl (Error (lit ''OpenAI API key not found'')), emptyWorld)"
proof -
  let ?cfg = "defaultConfig\<lparr>apiKeys :=
          Some \<lparr>anthropic = Some (lit ''sk-cfg''), openai = Some [], gemini = Some []\<rparr>\<rparr>"
  have n: "lit ''sk-cfg'' \<noteq> []" "lit ''g-456'' \<noteq> []" by (simp_all add: lit_def)
  have 1: "configKey ?cfg anthropic = Some (lit ''sk-cfg'')"
    by (simp add: configKey_def)
  have 2: "configKey defaultConfig gemini = Some []"
          "env exampleHost ''GEMINI_API_KEY'' = Some (lit ''g-456'')"
    by (simp_all add: configKey_def defaultConfig_def exampleHost_def)
  have 3: "configKey defaultConfig openai = Some []"
          "env exampleHost ''OPENAI_API_KEY'' = None"
    by (simp_all add: configKey_def defaultConfig_def exampleHost_def)
  have e: "calls emptyWorld = []" by (simp add: emptyWorld_def)
  note a = credential_precedence [where provider = "lit ''claude''" and sel = anthropic
      and var = "''ANTHROPIC_API_KEY''" and name = "''Anthropic''" and cfg = ?cfg
      and h = exampleHost and net = exampleNetwork and w = emptyWorld and st = Thorough
      and diff = "lit ''+ a line''", OF _ refl refl]
  note b = credential_precedence [where provider = "lit ''gemini''" and sel = gemini
      and var = "''GEMINI_API_KEY''" and name = "''Gemini''" and cfg = defaultConfig
      and h = exampleHost and net = exampleNetwork and w = emptyWorld and st = Thorough
      and diff = "lit ''+ a line''", OF _ refl refl]
  note c = credential_precedence [where provider = "lit ''openai''" and sel = openai
      and var = "''OPENAI_API_KEY''" and name = "''OpenAI''" and cfg = defaultConfig
      and h = exampleHost and net = exampleNetwork and w = emptyWorld and st = Thorough
      and diff = "lit ''+ a line''", OF _ refl refl]
  have A: "calls (snd (generateCommitMessage Thorough exampleHost exampleNetwork (lit ''+ a line'')
       (lit ''claude'') ?cfg emptyWorld)) =
     [MessagesCreate (lit ''sk-cfg'')
        (claudeParams (buildPrompt Thorough
           (fst (boundDiff (lit ''+ a line'') (lit ''claude'') emptyWorld))))]"
    using a 1 n e by simp
  have B: "calls (snd (generateCommitMessage Thorough exampleHost exampleNetwork (lit ''+ a line'')
       (lit ''gemini'') defaultConfig emptyWorld)) =
     [Fetch (geminiUrl (lit ''g-456''))
        (geminiInit (buildPrompt Thorough
           (fst (boundDiff (lit ''+ a line'') (lit ''gemini'') emptyWorld))))]"
    using b 2 n e by simp
  have "fst (generateCommitMessage Thorough exampleHost exampleNetwork (lit ''+ a line'')
       (lit ''openai'') defaultConfig emptyWorld) = Inl (Error (lit ''OpenAI API key not found''))"
    using c 3 by simp
  moreover have "snd (generateCommitMessage Thorough exampleHost exampleNetwork (lit ''+ a line'')
       (lit ''openai'') defaultConfig emptyWorld) = emptyWorld"
    using 3 by (simp add: dispatch_openai generateWithOpenAI_nokey orElse_env
        boundDiff_Number [OF limitFor_openai]) (simp add: lit_def)
  ultimately have C: "generateCommitMessage Thorough exampleHost exampleNetwork (lit ''+ a line'')
       (lit ''openai'') defaultConfig emptyWorld =
     (Inl (Error (lit ''OpenAI API key not found'')), emptyWorld)"
    by (simp add: prod_eq_iff)
  from A B C show ?thesis by blast
qed

lemma rethrow_not_missing:
  "rethrow ''Claude API error: '' r \<noteq> Inl (Error (lit ''Anthropic API key not found''))"
  "rethrow ''OpenAI API error: '' r \<noteq> Inl (Error (lit ''OpenAI API key not found''))"
  "rethrow ''Gemini API error: '' r \<noteq> Inl (Error (lit ''Gemini API key not found''))"
  by (cases r; simp add: rethrow_def lit_def)+

text \<open>
  Claim C9. For each of the three backends, when the configuration holds the empty
  string as the backend's secret (as the default configuration does), a non-empty
  environment variable is the secret of the call, and \<open><name> API key not found\<close> is
  raised exactly when the environment variable is unset or empty.
\<close>

theorem empty_config_secret_falls_through:
  assumes "(provider, sel, var, name, call) \<in>
     {(lit ''claude'', anthropic, ''ANTHROPIC_API_KEY'', ''Anthropic'',
         \<lambda>k. MessagesCreate k (claudeParams p)),
      (lit ''openai'', openai, ''OPENAI_API_KEY'', ''OpenAI'',
         \<lambda>k. ChatCompletionsCreate k (openaiParams p)),
      (lit ''gemini'', gemini, ''GEMINI_API_KEY'', ''Gemini'',
         \<lambda>k. Fetch (geminiUrl k) (geminiInit p))}"
    and "p = buildPrompt st (fst (boundDiff diff provider w))"
    and "R = generateCommitMessage st h net diff provider cfg w"
    and "configKey cfg sel = Some []"
  shows "(\<forall>e. env h var = Some e \<and> e \<noteq> [] \<longrightarrow> calls (snd R) = calls w @ [call e]) \<and>
         (fst R = Inl (Error (lit (name @ '' API key not found''))) \<longleftrightarrow>
            env h var \<in> {None, Some []}) \<and>
         configKey defaultConfig sel = Some []"
proof -
  have o: "orElse (configKey cfg sel) (env h var) = env h var"
    by (simp add: assms(4) orElse_def)
  have used: "calls (snd R) = calls w @ [call e]" if "env h var = Some e" and "e \<noteq> []" for e
    using assms(1) that o
    by (auto simp add: assms(2,3) dispatch_claude dispatch_openai dispatch_gemini
        generateWithClaude_key generateWithOpenAI_key generateWithGemini_key boundDiff_calls)
  have missing: "fst R = Inl (Error (lit (name @ '' API key not found'')))"
    if "env h var \<in> {None, Some []}"
    using assms(1) that o
    by (auto simp add: assms(3) dispatch_claude dispatch_openai dispatch_gemini
        generateWithClaude_nokey generateWithOpenAI_nokey generateWithGemini_nokey)
  have other: "fst R \<noteq> Inl (Error (lit (name @ '' API key not found'')))"
    if e: "env h var = Some e" "e \<noteq> []" for e
  proof -
    from assms(1) consider
        (c) "provider = lit ''claude''" "sel = anthropic" "var = ''ANTHROPIC_API_KEY''" "name = ''Anthropic''"
      | (o) "provider = lit ''openai''" "sel = openai" "var = ''OPENAI_API_KEY''" "name = ''OpenAI''"
      | (g) "provider = lit ''gemini''" "sel = gemini" "var = ''GEMINI_API_KEY''" "name = ''Gemini''"
      by auto
    then show ?thesis
    proof cases
      case c
      have k: "orElse (configKey cfg anthropic) (env h ''ANTHROPIC_API_KEY'') = Some e"
        using o e c by simp
      show ?thesis
        by (simp add: assms(3) c dispatch_claude generateWithClaude_key [OF k e(2)]
            rethrow_not_missing)
    next
      case o': o
      have k: "orElse (configKey cfg openai) (env h ''OPENAI_API_KEY'') = Some e"
        using o e o' by simp
      show ?thesis
        by (simp add: assms(3) o' dispatch_openai generateWithOpenAI_key [OF k e(2)]
            rethrow_not_missing)
    next
      case g
      have k: "orElse (configKey cfg gemini) (env h ''GEMINI_API_KEY'') = Some e"
        using o e g by simp
      show ?thesis
        by (simp add: assms(3) g dispatch_gemini generateWithGemini_key [OF k e(2)]
            rethrow_not_missing)
    qed
  qed
  have d: "configKey defaultConfig sel = Some []"
    using assms(1) by (auto simp add: configKey_def defaultConfig_def)
  have iff: "fst R = Inl (Error (lit (name @ '' API key not found''))) \<longleftrightarrow> env h var \<in> {None, Some []}"
  proof
    assume l: "fst R = Inl (Error (lit (name @ '' API key not found'')))"
    show "env h var \<in> {None, Some []}"
    proof (rule ccontr)
      assume "env h var \<notin> {None, Some []}"
      then obtain e where "env h var = Some e" "e \<noteq> []" by (cases "env h var") auto
      from other [OF this] l show False by simp
    qed
  qed (rule missing)
  from used iff d show ?thesis by blast
qed

theorem empty_config_secret_falls_through_witness:
  "calls (snd (generateCommitMessage Concise exampleHost exampleNetwork (lit ''+ a line'')
       (lit ''gemini'') defaultConfig emptyWorld)) =
     [Fetch (geminiUrl (lit ''g-456''))
        (geminiInit (buildPrompt Concise
           (fst (boundDiff (lit ''+ a line'') (lit ''gemini'') emptyWorld))))] \<and>
   fst (generateCommitMessage Concise exampleHost exampleNetwork (lit ''+ a line'')
       (lit ''openai'') defaultConfig emptyWorld) = Inl (Error (lit ''OpenAI API key not found''))"
proof -
  have n: "lit ''g-456'' \<noteq> []" by (simp add: lit_def)
  have 2: "configKey defaultConfig gemini = Some []"
          "env exampleHost ''GEMINI_API_KEY'' = Some (lit ''g-456'')"
    by (simp_all add: configKey_def defaultConfig_def exampleHost_def)
  have 3: "configKey defaultConfig openai = Some []"
          "env exampleHost ''OPENAI_API_KEY'' = None"
    by (simp_all add: configKey_def defaultConfig_def exampleHost_def)
  have e: "calls emptyWorld = []" by (simp add: emptyWorld_def)
  note b = empty_config_secret_falls_through [where provider = "lit ''gemini''" and sel = gemini
      and var = "''GEMINI_API_KEY''" and name = "''Gemini''" and cfg = defaultConfig
      and h = exampleHost and net = exampleNetwork and w = emptyWorld and st = Concise
      and diff = "lit ''+ a line''", OF _ refl refl 2(1)]
  note c = empty_config_secret_falls_through [where provider = "lit ''openai''" and sel = openai
      and var = "''OPENAI_API_KEY''" and name = "''OpenAI''" and cfg = defaultConfig
      and h = exampleHost and net = exampleNetwork and w = emptyWorld and st = Concise
      and diff = "lit ''+ a line''", OF _ refl refl 3(1)]
  have B: "calls (snd (generateCommitMessage Concise exampleHost exampleNetwork (lit ''+ a line'')
       (lit ''gemini'') defaultConfig emptyWorld)) =
     [Fetch (geminiUrl (lit ''g-456''))
        (geminiInit (buildPrompt Concise
           (fst (boundDiff (lit ''+ a line'') (lit ''gemini'') emptyWorld))))]"
    using b 2 n e by simp
  have C: "fst (generateCommitMessage Concise exampleHost exampleNetwork (lit ''+ a line'')
       (lit ''openai'') defaultConfig emptyWorld) = Inl (Error (lit ''OpenAI API key not found''))"
    using c 3 by simp
  from B C show ?thesis by blast
qed

lemma dispatch_success:
  assumes "key \<noteq> []"
    and "p = buildPrompt st (fst (boundDiff diff provider w))"
    and "(provider = lit ''claude'' \<and>
          orElse (configKey cfg anthropic) (env h ''ANTHROPIC_API_KEY'') = Some key \<and>
          messagesCreate net key (claudeParams p) = Fulfilled message \<and>
          member_of message ''content'' = Some content \<and>
          member_of content ''0'' = Some block \<and>
          member_of block ''text'' = Some (JStr t)) \<or>
         (provider = lit ''openai'' \<and>
          orElse (configKey cfg openai) (env h ''OPENAI_API_KEY'') = Some key \<and>
          chatCompletionsCreate net key (openaiParams p) = Fulfilled completion \<and>
          member_of completion ''choices'' = Some choices \<and>
          member_of choices ''0'' = Some choice \<and>
          member_of choice ''message'' = Some msg \<and>
          member_of msg ''content'' = Some (JStr t)) \<or>
         (provider = lit ''gemini'' \<and>
          orElse (configKey cfg gemini) (env h ''GEMINI_API_KEY'') = Some key \<and>
          fetch net (geminiUrl key) (geminiInit p) = Fulfilled resp \<and>
          ok resp \<and> body resp = Fulfilled data \<and>
          member_of data ''candidates'' = Some candidates \<and>
          member_of candidates ''0'' = Some candidate \<and>
          member_of candidate ''content'' = Some ccontent \<and>
          member_of ccontent ''parts'' = Some parts \<and>
          member_of parts ''0'' = Some part \<and>
          member_of part ''text'' = Some (JStr t))"
  shows "fst (generateCommitMessage st h net diff provider cfg w) = Inr (trim t)"
  using assms(3)
proof (elim disjE conjE)
  assume a: "provider = lit ''claude''"
    "orElse (configKey cfg anthropic) (env h ''ANTHROPIC_API_KEY'') = Some key"
    "messagesCreate net key (claudeParams p) = Fulfilled message"
    "member_of message ''content'' = Some content"
    "member_of content ''0'' = Some block"
    "member_of block ''text'' = Some (JStr t)"
  have "claudeTry h (Fulfilled message) = Inr (trim t)"
    unfolding claudeTry_Inr_iff using a(4-6) by blast
  then show ?thesis
    using a(3) [unfolded assms(2) a(1)]
    by (simp add: a(1) dispatch_claude generateWithClaude_key [OF a(2) assms(1)] rethrow_Inr_iff)
next
  assume a: "provider = lit ''openai''"
    "orElse (configKey cfg openai) (env h ''OPENAI_API_KEY'') = Some key"
    "chatCompletionsCreate net key (openaiParams p) = Fulfilled completion"
    "member_of completion ''choices'' = Some choices"
    "member_of choices ''0'' = Some choice"
    "member_of choice ''message'' = Some msg"
    "member_of msg ''content'' = Some (JStr t)"
  have "openaiTry h (Fulfilled completion) = Inr (trim t)"
    unfolding openaiTry_Inr_iff using a(4-7) by blast
  then show ?thesis
    using a(3) [unfolded assms(2) a(1)]
    by (simp add: a(1) dispatch_openai generateWithOpenAI_key [OF a(2) assms(1)] rethrow_Inr_iff)
next
  assume a: "provider = lit ''gemini''"
    "orElse (configKey cfg gemini) (env h ''GEMINI_API_KEY'') = Some key"
    "fetch net (geminiUrl key) (geminiInit p) = Fulfilled resp"
    "ok resp" "body resp = Fulfilled data"
    "member_of data ''candidates'' = Some candidates"
    "member_of candidates ''0'' = Some candidate"
    "member_of candidate ''content'' = Some ccontent"
    "member_of ccontent ''parts'' = Some parts"
    "member_of parts ''0'' = Some part"
    "member_of part ''text'' = Some (JStr t)"
  have "geminiTry h (Fulfilled resp) = Inr (trim t)"
    unfolding geminiTry_Inr_iff using a(4-11) by blast
  then show ?thesis
    using a(3) [unfolded assms(2) a(1)]
    by (simp add: a(1) dispatch_gemini generateWithGemini_key [OF a(2) assms(1)] rethrow_Inr_iff)
qed


text \<open>
  Claim C4. For each of the three backends, with a secret resolved and the backend
  answering its success envelope (\<open>content[0].text\<close> for Claude,
  \<open>choices[0].message.content\<close> for OpenAI, \<open>candidates[0].content.parts[0].text\<close>
  with an ok status for Gemini) whose inner text is the string \<open>t\<close>, dispatch returns
  \<open>t\<close> trimmed, the same value whichever backend it was: \<open>t\<close> without a leading and
  a trailing run of white space, and with none left at either end.
\<close>

theorem response_normalization:
  assumes "key \<noteq> []"
    and "p = buildPrompt st (fst (boundDiff diff provider w))"
    and "(provider = lit ''claude'' \<and>
          orElse (configKey cfg anthropic) (env h ''ANTHROPIC_API_KEY'') = Some key \<and>
          messagesCreate net key (claudeParams p) = Fulfilled message \<and>
          member_of message ''content'' = Some content \<and>
          member_of content ''0'' = Some block \<and>
          member_of block ''text'' = Some (JStr t)) \<or>
         (provider = lit ''openai'' \<and>
          orElse (configKey cfg openai) (env h ''OPENAI_API_KEY'') = Some key \<and>
          chatCompletionsCreate net key (openaiParams p) = Fulfilled completion \<and>
          member_of completion ''choices'' = Some choices \<and>
          member_of choices ''0'' = Some choice \<and>
          member_of choice ''message'' = Some msg \<and>
          member_of msg ''content'' = Some (JStr t)) \<or>
         (provider = lit ''gemini'' \<and>
          orElse (configKey cfg gemini) (env h ''GEMINI_API_KEY'') = Some key \<and>
          fetch net (geminiUrl key) (geminiInit p) = Fulfilled resp \<and>
          ok resp \<and> body resp = Fulfilled data \<and>
          member_of data ''candidates'' = Some candidates \<and>
          member_of candidates ''0'' = Some candidate \<and>
          member_of candidate ''content'' = Some ccontent \<and>
          member_of ccontent ''parts'' = Some parts \<and>
          member_of parts ''0'' = Some part \<and>
          member_of part ''text'' = Some (JStr t))"
  shows "fst (generateCommitMessage st h net diff provider cfg w) = Inr (trim t) \<and>
         (\<exists>a b. t = a @ trim t @ b \<and> (\<forall>x\<in>set a. isWhiteSpace x) \<and> (\<forall>x\<in>set b. isWhiteSpace x)) \<and>
         (trim t \<noteq> [] \<longrightarrow> \<not> isWhiteSpace (hd (trim t)) \<and> \<not> isWhiteSpace (last (trim t)))"
  using dispatch_success [OF assms] trim_decomp [of t] trim_hd [of t] trim_last [of t]
  by blast

theorem response_normalization_witness:
  "fst (generateCommitMessage Thorough exampleHost exampleNetwork (lit ''+ a line'')
       (lit ''claude'') defaultConfig emptyWorld) = Inr (lit ''fix: typo'')"
proof -
  let ?p = "buildPrompt Thorough (fst (boundDiff (lit ''+ a line'') (lit ''claude'') emptyWorld))"
  let ?block = "JObj [(lit ''type'', JStr (lit ''text'')), (lit ''text'', JStr (lit '' fix: typo\<newline>''))]"
  let ?message = "JObj [(lit ''role'', JStr (lit ''assistant'')), (lit ''content'', JArr [?block])]"
  have n: "lit ''tok-123'' \<noteq> []" by (simp add: lit_def)
  have k: "orElse (configKey defaultConfig anthropic) (env exampleHost ''ANTHROPIC_API_KEY'') =
             Some (lit ''tok-123'')"
    by (simp add: orElse_def configKey_def defaultConfig_def exampleHost_def)
  have r: "messagesCreate exampleNetwork (lit ''tok-123'') (claudeParams ?p) = Fulfilled ?message"
    by (simp add: exampleNetwork_def)
  have m: "member_of ?message ''content'' = Some (JArr [?block])"
          "member_of (JArr [?block]) ''0'' = Some ?block"
          "member_of ?block ''text'' = Some (JStr (lit '' fix: typo\<newline>''))"
    by (simp_all add: lit_eq_iff)
  have t: "trim (lit '' fix: typo\<newline>'') = lit ''fix: typo''"
    by (simp add: trim_def lit_def isWhiteSpace_def)
  from response_normalization [where provider = "lit ''claude''" and key = "lit ''tok-123''"
      and message = ?message and content = "JArr [?block]" and block = ?block
      and t = "lit '' fix: typo\<newline>''" and p = ?p and st = Thorough
      and diff = "lit ''+ a line''" and w = emptyWorld and h = exampleHost
      and net = exampleNetwork and cfg = defaultConfig, OF n refl]
    k r m t
  show ?thesis by simp
qed

text \<open>
  Claim C10. For each of the three backends, with a secret resolved and the backend
  answering its success envelope, an inner text that is empty or all white space makes
  dispatch return the empty string, as a result and not as an error.
\<close>

theorem blank_message_is_returned:
  assumes "key \<noteq> []"
    and "p = buildPrompt st (fst (boundDiff diff provider w))"
    and "(provider = lit ''claude'' \<and>
          orElse (configKey cfg anthropic) (env h ''ANTHROPIC_API_KEY'') = Some key \<and>
          messagesCreate net key (claudeParams p) = Fulfilled message \<and>
          member_of message ''content'' = Some content \<and>
          member_of content ''0'' = Some block \<and>
          member_of block ''text'' = Some (JStr t)) \<or>
         (provider = lit ''openai'' \<and>
          orElse (configKey cfg openai) (env h ''OPENAI_API_KEY'') = Some key \<and>
          chatCompletionsCreate net key (openaiParams p) = Fulfilled completion \<and>
          member_of completion ''choices'' = Some choices \<and>
          member_of choices ''0'' = Some choice \<and>
          member_of choice ''message'' = Some msg \<and>
          member_of msg ''content'' = Some (JStr t)) \<or>
         (provider = lit ''gemini'' \<and>
          orElse (configKey cfg gemini) (env h ''GEMINI_API_KEY'') = Some key \<and>
          fetch net (geminiUrl key) (geminiInit p) = Fulfilled resp \<and>
          ok resp \<and> body resp = Fulfilled data \<and>
          member_of data ''candidates'' = Some candidates \<and>
          member_of candidates ''0'' = Some candidate \<and>
          member_of candidate ''content'' = Some ccontent \<and>
          member_of ccontent ''parts'' = Some parts \<and>
          member_of parts ''0'' = Some part \<and>
          member_of part ''text'' = Some (JStr t))"
    and "\<forall>x\<in>set t. isWhiteSpace x"
  shows "fst (generateCommitMessage st h net diff provider cfg w) = Inr []"
  using dispatch_success [OF assms(1-3)] trim_blank [OF assms(4)] by simp

theorem blank_message_is_returned_witness:
  "fst (generateCommitMessage Thorough exampleHost
       (exampleNetwork\<lparr>messagesCreate := \<lambda>key params.
          Fulfilled (JObj [(lit ''content'', JArr [JObj [(lit ''text'', JStr (lit '' \<newline>''))]])])\<rparr>)
       (lit ''+ a line'') (lit ''claude'') defaultConfig emptyWorld) = Inr []"
proof -
  let ?net = "exampleNetwork\<lparr>messagesCreate := \<lambda>key params.
          Fulfilled (JObj [(lit ''content'', JArr [JObj [(lit ''text'', JStr (lit '' \<newline>''))]])])\<rparr>"
  let ?p = "buildPrompt Thorough (fst (boundDiff (lit ''+ a line'') (lit ''claude'') emptyWorld))"
  let ?block = "JObj [(lit ''text'', JStr (lit '' \<newline>''))]"
  let ?message = "JObj [(lit ''content'', JArr [?block])]"
  have n: "lit ''tok-123'' \<noteq> []" by (simp add: lit_def)
  have k: "orElse (configKey defaultConfig anthropic) (env exampleHost ''ANTHROPIC_API_KEY'') =
             Some (lit ''tok-123'')"
    by (simp add: orElse_def configKey_def defaultConfig_def exampleHost_def)
  have r: "messagesCreate ?net (lit ''tok-123'') (claudeParams ?p) = Fulfilled ?message"
    by simp
  have m: "member_of ?message ''content'' = Some (JArr [?block])"
          "member_of (JArr [?block]) ''0'' = Some ?block"
          "member_of ?block ''text'' = Some (JStr (lit '' \<newline>''))"
    by (simp_all add: lit_eq_iff)
  have b: "\<forall>x\<in>set (lit '' \<newline>''). isWhiteSpace x"
    by (simp add: lit_def isWhiteSpace_def)
  from blank_message_is_returned [where provider = "lit ''claude''" and key = "lit ''tok-123''"
      and message = ?message and content = "JArr [?block]" and block = ?block
      and t = "lit '' \<newline>''" and p = ?p and st = Thorough
      and diff = "lit ''+ a line''" and w = emptyWorld and h = exampleHost
      and net = ?net and cfg = defaultConfig, OF n refl _ b]
    k r m
  show ?thesis by simp
qed

text \<open>
  Claim C5. For Gemini, with a secret resolved: when \<open>fetch\<close> answers with a status
  that is not ok and a body that parses to a value whose \<open>error.message\<close> is the string
  \<open>m\<close>, dispatch raises \<open>Gemini API error: \<close> followed by a message that carries
  \<open>m\<close> (it is \<open>m\<close>, unless \<open>m\<close> is empty), whatever else the body holds: the status
  is tested before \<open>candidates\<close> is read.
\<close>

theorem gemini_status_failure:
  assumes "key \<noteq> []"
    and "orElse (configKey cfg gemini) (env h ''GEMINI_API_KEY'') = Some key"
    and "fetch net (geminiUrl key)
           (geminiInit (buildPrompt st (fst (boundDiff diff (lit ''gemini'') w)))) = Fulfilled resp"
    and "\<not> ok resp"
    and "body resp = Fulfilled data"
    and "member_of data ''error'' = Some e"
    and "member_of e ''message'' = Some (JStr m)"
  shows "\<exists>msg. fst (generateCommitMessage st h net diff (lit ''gemini'') cfg w) =
                 Inl (Error (lit ''Gemini API error: '' @ msg)) \<and>
               suffix m msg \<and> (m \<noteq> [] \<longrightarrow> msg = m)"
proof -
  have e: "e \<noteq> JNull" using assms(7) by (rule member_of_JNull)
  have "geminiFailure h (Some e) = (if m \<noteq> [] then m else lit ''Gemini API request failed'')"
    using e assms(7) by (cases e) (simp_all add: geminiFailure_def optChain_def toString_def)
  moreover have "geminiTry h (Fulfilled resp) = Inl (geminiFailure h (Some e))"
    using assms(4,5) getProp_member [OF assms(6), of h]
    by (simp add: geminiTry_def andThen_def)
  ultimately have "fst (generateCommitMessage st h net diff (lit ''gemini'') cfg w) =
      Inl (Error (lit ''Gemini API error: '' @ (if m \<noteq> [] then m else lit ''Gemini API request failed'')))"
    using assms(3)
    by (simp add: dispatch_gemini generateWithGemini_key [OF assms(2,1)] rethrow_def)
  then show ?thesis by (cases "m = []") auto
qed

theorem gemini_status_failure_witness:
  "fst (generateCommitMessage Thorough exampleHost exampleNetwork (lit ''+ a line'')
       (lit ''gemini'') defaultConfig emptyWorld) =
     Inl (Error (lit ''Gemini API error: API key not valid''))"
proof -
  let ?e = "JObj [(lit ''code'', JNum 400), (lit ''message'', JStr (lit ''API key not valid''))]"
  let ?data = "JObj [(lit ''error'', ?e)]"
  let ?resp = "\<lparr>ok = False, body = Fulfilled ?data\<rparr>"
  have n: "lit ''g-456'' \<noteq> []" by (simp add: lit_def)
  have k: "orElse (configKey defaultConfig gemini) (env exampleHost ''GEMINI_API_KEY'') =
             Some (lit ''g-456'')"
    by (simp add: orElse_def configKey_def defaultConfig_def exampleHost_def)
  have r: "fetch exampleNetwork (geminiUrl (lit ''g-456''))
             (geminiInit (buildPrompt Thorough
                (fst (boundDiff (lit ''+ a line'') (lit ''gemini'') emptyWorld)))) = Fulfilled ?resp"
    by (simp add: exampleNetwork_def)
  have o: "\<not> ok ?resp" "body ?resp = Fulfilled ?data" by simp_all
  have m: "member_of ?data ''error'' = Some ?e"
          "member_of ?e ''message'' = Some (JStr (lit ''API key not valid''))"
    by (simp_all add: lit_eq_iff)
  have ne: "lit ''API key not valid'' \<noteq> []" by (simp add: lit_def)
  from gemini_status_failure [OF n k r o m] ne
  show ?thesis by (auto simp add: lit_append [symmetric])
qed

lemma claude_outcome:
  assumes "orElse (configKey cfg anthropic) (env h ''ANTHROPIC_API_KEY'') = Some key" and "key \<noteq> []"
  shows "generateCommitMessage st h net diff (lit ''claude'') cfg w =
     (rethrow ''Claude API error: '' (claudeTry h (messagesCreate net key
        (claudeParams (buildPrompt st (fst (boundDiff diff (lit ''claude'') w)))))),
      (snd (boundDiff diff (lit ''claude'') w))
        \<lparr>calls := calls w @ [MessagesCreate key
           (claudeParams (buildPrompt st (fst (boundDiff diff (lit ''claude'') w))))]\<rparr>)"
  by (simp add: dispatch_claude generateWithClaude_key [OF assms] boundDiff_calls)

lemma openai_outcome:
  assumes "orElse (configKey cfg openai) (env h ''OPENAI_API_KEY'') = Some key" and "key \<noteq> []"
  shows "generateCommitMessage st h net diff (lit ''openai'') cfg w =
     (rethrow ''OpenAI API error: '' (openaiTry h (chatCompletionsCreate net key
        (openaiParams (buildPrompt st (fst (boundDiff diff (lit ''openai'') w)))))),
      (snd (boundDiff diff (lit ''openai'') w))
        \<lparr>calls := calls w @ [ChatCompletionsCreate key
           (openaiParams (buildPrompt st (fst (boundDiff diff (lit ''openai'') w))))]\<rparr>)"
  by (simp add: dispatch_openai generateWithOpenAI_key [OF assms] boundDiff_calls)

lemma gemini_outcome:
  assumes "orElse (configKey cfg gemini) (env h ''GEMINI_API_KEY'') = Some key" and "key \<noteq> []"
  shows "generateCommitMessage st h net diff (lit ''gemini'') cfg w =
     (rethrow ''Gemini API error: '' (geminiTry h (fetch net (geminiUrl key)
        (geminiInit (buildPrompt st (fst (boundDiff diff (lit ''gemini'') w)))))),
      (snd (boundDiff diff (lit ''gemini'') w))
        \<lparr>calls := calls w @ [Fetch (geminiUrl key)
           (geminiInit (buildPrompt st (fst (boundDiff diff (lit ''gemini'') w))))]\<rparr>)"
  by (simp add: dispatch_gemini generateWithGemini_key [OF assms] boundDiff_calls)

lemma orElse_split:
  obtains "orElse a b \<in> {None, Some []}" | key where "orElse a b = Some key" "key \<noteq> []"
  by (cases "orElse a b") auto

lemma rethrow_shape:
  "(\<exists>s. tr = Inr s \<and> rethrow p tr = Inr s) \<or> (\<exists>m. rethrow p tr = Inl (Error (lit p @ m)))"
  by (cases tr) (simp_all add: rethrow_def)

lemma claude_shape:
  "(\<exists>t. fst (generateCommitMessage st h net diff (lit ''claude'') cfg w) = Inr (trim t)) \<or>
   fst (generateCommitMessage st h net diff (lit ''claude'') cfg w) =
     Inl (Error (lit ''Anthropic API key not found'')) \<or>
   (\<exists>m. fst (generateCommitMessage st h net diff (lit ''claude'') cfg w) =
     Inl (Error (lit ''Claude API error: '' @ m)))"
proof (rule orElse_split [of "configKey cfg anthropic" "env h ''ANTHROPIC_API_KEY''"])
  assume "orElse (configKey cfg anthropic) (env h ''ANTHROPIC_API_KEY'') \<in> {None, Some []}"
  then show ?thesis by (simp add: dispatch_claude generateWithClaude_nokey)
next
  fix key assume k: "orElse (configKey cfg anthropic) (env h ''ANTHROPIC_API_KEY'') = Some key" "key \<noteq> []"
  let ?tr = "claudeTry h (messagesCreate net key
        (claudeParams (buildPrompt st (fst (boundDiff diff (lit ''claude'') w)))))"
  from rethrow_shape [of ?tr "''Claude API error: ''"] show ?thesis
  proof (elim disjE exE conjE)
    fix s assume "?tr = Inr s" "rethrow ''Claude API error: '' ?tr = Inr s"
    moreover from this obtain t where "s = trim t" unfolding claudeTry_Inr_iff by blast
    ultimately show ?thesis by (simp add: claude_outcome [OF k]) blast
  next
    fix m assume "rethrow ''Claude API error: '' ?tr = Inl (Error (lit ''Claude API error: '' @ m))"
    then show ?thesis by (simp add: claude_outcome [OF k])
  qed
qed

lemma openai_shape:
  "(\<exists>t. fst (generateCommitMessage st h net diff (lit ''openai'') cfg w) = Inr (trim t)) \<or>
   fst (generateCommitMessage st h net diff (lit ''openai'') cfg w) =
     Inl (Error (lit ''OpenAI API key not found'')) \<or>
   (\<exists>m. fst (generateCommitMessage st h net diff (lit ''openai'') cfg w) =
     Inl (Error (lit ''OpenAI API error: '' @ m)))"
proof (rule orElse_split [of "configKey cfg openai" "env h ''OPENAI_API_KEY''"])
  assume "orElse (configKey cfg openai) (env h ''OPENAI_API_KEY'') \<in> {None, Some []}"
  then show ?thesis by (simp add: dispatch_openai generateWithOpenAI_nokey)
next
  fix key assume k: "orElse (configKey cfg openai) (env h ''OPENAI_API_KEY'') = Some key" "key \<noteq> []"
  let ?tr = "openaiTry h (chatCompletionsCreate net key
        (openaiParams (buildPrompt st (fst (boundDiff diff (lit ''openai'') w)))))"
  from rethrow_shape [of ?tr "''OpenAI API error: ''"] show ?thesis
  proof (elim disjE exE conjE)
    fix s assume "?tr = Inr s" "rethrow ''OpenAI API error: '' ?tr = Inr s"
    moreover from this obtain t where "s = trim t" unfolding openaiTry_Inr_iff by blast
    ultimately show ?thesis by (simp add: openai_outcome [OF k]) blast
  next
    fix m assume "rethrow ''OpenAI API error: '' ?tr = Inl (Error (lit ''OpenAI API error: '' @ m))"
    then show ?thesis by (simp add: openai_outcome [OF k])
  qed
qed

lemma gemini_shape:
  "(\<exists>t. fst (generateCommitMessage st h net diff (lit ''gemini'') cfg w) = Inr (trim t)) \<or>
   fst (generateCommitMessage st h net diff (lit ''gemini'') cfg w) =
     Inl (Error (lit ''Gemini API key not found'')) \<or>
   (\<exists>m. fst (generateCommitMessage st h net diff (lit ''gemini'') cfg w) =
     Inl (Error (lit ''Gemini API error: '' @ m)))"
proof (rule orElse_split [of "configKey cfg gemini" "env h ''GEMINI_API_KEY''"])
  assume "orElse (configKey cfg gemini) (env h ''GEMINI_API_KEY'') \<in> {None, Some []}"
  then show ?thesis by (simp add: dispatch_gemini generateWithGemini_nokey)
next
  fix key assume k: "orElse (configKey cfg gemini) (env h ''GEMINI_API_KEY'') = Some key" "key \<noteq> []"
  let ?tr = "geminiTry h (fetch net (geminiUrl key)
        (geminiInit (buildPrompt st (fst (boundDiff diff (lit ''gemini'') w)))))"
  from rethrow_shape [of ?tr "''Gemini API error: ''"] show ?thesis
  proof (elim disjE exE conjE)
    fix s assume "?tr = Inr s" "rethrow ''Gemini API error: '' ?tr = Inr s"
    moreover from this obtain t where "s = trim t" unfolding geminiTry_Inr_iff by blast
    ultimately show ?thesis by (simp add: gemini_outcome [OF k]) blast
  next
    fix m assume "rethrow ''Gemini API error: '' ?tr = Inl (Error (lit ''Gemini API error: '' @ m))"
    then show ?thesis by (simp add: gemini_outcome [OF k])
  qed
qed


text \<open>
  Claim C6. For each of the three backends, whatever the network does, dispatch either
  returns a string \<open>trim t\<close> or raises one of \<open><name> API key not found\<close> and
  \<open><name> API error: <message>\<close> (and \<open>Unknown provider\<close> is for the other names).
  With a secret resolved: a call that is rejected with message \<open>m\<close> (for Gemini also
  a body that does not parse) raises the backend's error with \<open>m\<close> attached; so does
  every error thrown while the envelope is read, with its own message; and a string is
  returned only when the envelope holds every expected field down to an inner string
  \<open>t\<close>, of which it is the trimmed whole.
\<close>

theorem no_partial_result:
  assumes "provider \<in> {lit ''claude'', lit ''openai'', lit ''gemini''}"
    and "R = fst (generateCommitMessage st h net diff provider cfg w)"
    and "p = buildPrompt st (fst (boundDiff diff provider w))"
  shows "((\<exists>t. R = Inr (trim t)) \<or>
          R \<in> {Inl (Error (lit ''Anthropic API key not found'')),
               Inl (Error (lit ''OpenAI API key not found'')),
               Inl (Error (lit ''Gemini API key not found''))} \<or>
          (\<exists>m. R \<in> {Inl (Error (lit ''Claude API error: '' @ m)),
                    Inl (Error (lit ''OpenAI API error: '' @ m)),
                    Inl (Error (lit ''Gemini API error: '' @ m))})) \<and>
         (\<forall>key out. key \<noteq> [] \<and> provider = lit ''claude'' \<and>
             orElse (configKey cfg anthropic) (env h ''ANTHROPIC_API_KEY'') = Some key \<and>
             out = messagesCreate net key (claudeParams p) \<longrightarrow>
           (\<forall>m. out = Rejected m \<longrightarrow> R = Inl (Error (lit ''Claude API error: '' @ m))) \<and>
           (\<forall>m. claudeTry h out = Inl m \<longrightarrow> R = Inl (Error (lit ''Claude API error: '' @ m))) \<and>
           (\<forall>s. R = Inr s \<longrightarrow>
              (\<exists>message content block t. out = Fulfilled message \<and>
                 member_of message ''content'' = Some content \<and>
                 member_of content ''0'' = Some block \<and>
                 member_of block ''text'' = Some (JStr t) \<and> s = trim t))) \<and>
         (\<forall>key out. key \<noteq> [] \<and> provider = lit ''openai'' \<and>
             orElse (configKey cfg openai) (env h ''OPENAI_API_KEY'') = Some key \<and>
             out = chatCompletionsCreate net key (openaiParams p) \<longrightarrow>
           (\<forall>m. out = Rejected m \<longrightarrow> R = Inl (Error (lit ''OpenAI API error: '' @ m))) \<and>
           (\<forall>m. openaiTry h out = Inl m \<longrightarrow> R = Inl (Error (lit ''OpenAI API error: '' @ m))) \<and>
           (\<forall>s. R = Inr s \<longrightarrow>
              (\<exists>completion choices choice msg t. out = Fulfilled completion \<and>
                 member_of completion ''choices'' = Some choices \<and>
                 member_of choices ''0'' = Some choice \<and>
                 member_of choice ''message'' = Some msg \<and>
                 member_of msg ''content'' = Some (JStr t) \<and> s = trim t))) \<and>
         (\<forall>key out. key \<noteq> [] \<and> provider = lit ''gemini'' \<and>
             orElse (configKey cfg gemini) (env h ''GEMINI_API_KEY'') = Some key \<and>
             out = fetch net (geminiUrl key) (geminiInit p) \<longrightarrow>
           (\<forall>m. out = Rejected m \<longrightarrow> R = Inl (Error (lit ''Gemini API error: '' @ m))) \<and>
           (\<forall>resp m. out = Fulfilled resp \<and> body resp = Rejected m \<longrightarrow>
              R = Inl (Error (lit ''Gemini API error: '' @ m))) \<and>
           (\<forall>m. geminiTry h out = Inl m \<longrightarrow> R = Inl (Error (lit ''Gemini API error: '' @ m))) \<and>
           (\<forall>s. R = Inr s \<longrightarrow>
              (\<exists>resp data candidates candidate ccontent parts part t.
                 out = Fulfilled resp \<and> ok resp \<and> body resp = Fulfilled data \<and>
                 member_of data ''candidates'' = Some candidates \<and>
                 member_of candidates ''0'' = Some candidate \<and>
                 member_of candidate ''content'' = Some ccontent \<and>
                 member_of ccontent ''parts'' = Some parts \<and>
                 member_of parts ''0'' = Some part \<and>
                 member_of part ''text'' = Some (JStr t) \<and> s = trim t)))"
proof (intro conjI allI impI; (elim conjE)?)
  show "(\<exists>t. R = Inr (trim t)) \<or>
          R \<in> {Inl (Error (lit ''Anthropic API key not found'')),
               Inl (Error (lit ''OpenAI API key not found'')),
               Inl (Error (lit ''Gemini API key not found''))} \<or>
          (\<exists>m. R \<in> {Inl (Error (lit ''Claude API error: '' @ m)),
                    Inl (Error (lit ''OpenAI API error: '' @ m)),
                    Inl (Error (lit ''Gemini API error: '' @ m))})"
    using assms(1) claude_shape [of st h net diff cfg w] openai_shape [of st h net diff cfg w]
      gemini_shape [of st h net diff cfg w]
    unfolding assms(2) by (elim insertE emptyE) (simp; blast)+
next
  fix key out m
  assume k: "key \<noteq> []" "provider = lit ''claude''"
      "orElse (configKey cfg anthropic) (env h ''ANTHROPIC_API_KEY'') = Some key"
    and out: "out = messagesCreate net key (claudeParams p)"
  have R: "R = rethrow ''Claude API error: '' (claudeTry h out)"
    by (simp add: assms(2,3) k(2) out claude_outcome [OF k(3,1)])
  { assume "out = Rejected m"
    then show "R = Inl (Error (lit ''Claude API error: '' @ m))"
      by (simp add: R claudeTry_def rethrow_def) }
  { assume "claudeTry h out = Inl m"
    then show "R = Inl (Error (lit ''Claude API error: '' @ m))"
      by (simp add: R rethrow_def) }
next
  fix key out s
  assume k: "key \<noteq> []" "provider = lit ''claude''"
      "orElse (configKey cfg anthropic) (env h ''ANTHROPIC_API_KEY'') = Some key"
    and out: "out = messagesCreate net key (claudeParams p)" and s: "R = Inr s"
  have R: "R = rethrow ''Claude API error: '' (claudeTry h out)"
    by (simp add: assms(2,3) k(2) out claude_outcome [OF k(3,1)])
  with s have "claudeTry h out = Inr s" by (simp add: rethrow_Inr_iff)
  then show "\<exists>message content block t. out = Fulfilled message \<and>
                 member_of message ''content'' = Some content \<and>
                 member_of content ''0'' = Some block \<and>
                 member_of block ''text'' = Some (JStr t) \<and> s = trim t"
    unfolding claudeTry_Inr_iff .
next
  fix key out m
  assume k: "key \<noteq> []" "provider = lit ''openai''"
      "orElse (configKey cfg openai) (env h ''OPENAI_API_KEY'') = Some key"
    and out: "out = chatCompletionsCreate net key (openaiParams p)"
  have R: "R = rethrow ''OpenAI API error: '' (openaiTry h out)"
    by (simp add: assms(2,3) k(2) out openai_outcome [OF k(3,1)])
  { assume "out = Rejected m"
    then show "R = Inl (Error (lit ''OpenAI API error: '' @ m))"
      by (simp add: R openaiTry_def rethrow_def) }
  { assume "openaiTry h out = Inl m"
    then show "R = Inl (Error (lit ''OpenAI API error: '' @ m))"
      by (simp add: R rethrow_def) }
next
  fix key out s
  assume k: "key \<noteq> []" "provider = lit ''openai''"
      "orElse (configKey cfg openai) (env h ''OPENAI_API_KEY'') = Some key"
    and out: "out = chatCompletionsCreate net key (openaiParams p)" and s: "R = Inr s"
  have R: "R = rethrow ''OpenAI API error: '' (openaiTry h out)"
    by (simp add: assms(2,3) k(2) out openai_outcome [OF k(3,1)])
  with s have "openaiTry h out = Inr s" by (simp add: rethrow_Inr_iff)
  then show "\<exists>completion choices choice msg t. out = Fulfilled completion \<and>
                 member_of completion ''choices'' = Some choices \<and>
                 member_of choices ''0'' = Some choice \<and>
                 member_of choice ''message'' = Some msg \<and>
                 member_of msg ''content'' = Some (JStr t) \<and> s = trim t"
    unfolding openaiTry_Inr_iff .
next
  fix key out m
  assume k: "key \<noteq> []" "provider = lit ''gemini''"
      "orElse (configKey cfg gemini) (env h ''GEMINI_API_KEY'') = Some key"
    and out: "out = fetch net (geminiUrl key) (geminiInit p)"
  have R: "R = rethrow ''Gemini API error: '' (geminiTry h out)"
    by (simp add: assms(2,3) k(2) out gemini_outcome [OF k(3,1)])
  { assume "out = Rejected m"
    then show "R = Inl (Error (lit ''Gemini API error: '' @ m))"
      by (simp add: R geminiTry_def rethrow_def) }
  { assume "geminiTry h out = Inl m"
    then show "R = Inl (Error (lit ''Gemini API error: '' @ m))"
      by (simp add: R rethrow_def) }
next
  fix key out resp m
  assume k: "key \<noteq> []" "provider = lit ''gemini''"
      "orElse (configKey cfg gemini) (env h ''GEMINI_API_KEY'') = Some key"
    and out: "out = fetch net (geminiUrl key) (geminiInit p)"
    and r: "out = Fulfilled resp" "body resp = Rejected m"
  have R: "R = rethrow ''Gemini API error: '' (geminiTry h out)"
    by (simp add: assms(2,3) k(2) out gemini_outcome [OF k(3,1)])
  show "R = Inl (Error (lit ''Gemini API error: '' @ m))"
    by (simp add: R r geminiTry_def rethrow_def)
next
  fix key out s
  assume k: "key \<noteq> []" "provider = lit ''gemini''"
      "orElse (configKey cfg gemini) (env h ''GEMINI_API_KEY'') = Some key"
    and out: "out = fetch net (geminiUrl key) (geminiInit p)" and s: "R = Inr s"
  have R: "R = rethrow ''Gemini API error: '' (geminiTry h out)"
    by (simp add: assms(2,3) k(2) out gemini_outcome [OF k(3,1)])
  with s have "geminiTry h out = Inr s" by (simp add: rethrow_Inr_iff)
  then show "\<exists>resp data candidates candidate ccontent parts part t.
                 out = Fulfilled resp \<and> ok resp \<and> body resp = Fulfilled data \<and>
                 member_of data ''candidates'' = Some candidates \<and>
                 member_of candidates ''0'' = Some candidate \<and>
                 member_of candidate ''content'' = Some ccontent \<and>
                 member_of ccontent ''parts'' = Some parts \<and>
                 member_of parts ''0'' = Some part \<and>
                 member_of part ''text'' = Some (JStr t) \<and> s = trim t"
    unfolding geminiTry_Inr_iff .
qed

theorem no_partial_result_witness:
  "fst (generateCommitMessage Thorough exampleHost exampleNetwork (lit ''+ a line'') (lit ''openai'')
       (defaultConfig\<lparr>apiKeys :=
          Some \<lparr>anthropic = Some [], openai = Some (lit ''sk-o''), gemini = Some []\<rparr>\<rparr>)
       emptyWorld) = Inl (Error (lit ''OpenAI API error: Connection error.'')) \<and>
   fst (generateCommitMessage Thorough exampleHost
       (exampleNetwork\<lparr>messagesCreate := \<lambda>key params. Fulfilled (JObj [(lit ''content'', JArr [])])\<rparr>)
       (lit ''+ a line'') (lit ''claude'') defaultConfig emptyWorld) =
     Inl (Error (lit ''Claude API error: Cannot read properties of undefined''))"
proof -
  let ?cfg = "defaultConfig\<lparr>apiKeys :=
          Some \<lparr>anthropic = Some [], openai = Some (lit ''sk-o''), gemini = Some []\<rparr>\<rparr>"
  let ?net = "exampleNetwork\<lparr>messagesCreate := \<lambda>key params. Fulfilled (JObj [(lit ''content'', JArr [])])\<rparr>"
  have n: "lit ''sk-o'' \<noteq> []" "lit ''tok-123'' \<noteq> []" by (simp_all add: lit_def)
  have p: "lit ''openai'' \<in> {lit ''claude'', lit ''openai'', lit ''gemini''}"
          "lit ''claude'' \<in> {lit ''claude'', lit ''openai'', lit ''gemini''}" by simp_all
  have k: "orElse (configKey ?cfg openai) (env exampleHost ''OPENAI_API_KEY'') = Some (lit ''sk-o'')"
    using n by (simp add: orElse_def configKey_def)
  have k': "orElse (configKey defaultConfig anthropic) (env exampleHost ''ANTHROPIC_API_KEY'') =
             Some (lit ''tok-123'')"
    by (simp add: orElse_def configKey_def defaultConfig_def exampleHost_def)
  have r: "chatCompletionsCreate exampleNetwork key params = Rejected (lit ''Connection error.'')"
    for key params by (simp add: exampleNetwork_def)
  have r': "claudeTry exampleHost (messagesCreate ?net key params) =
              Inl (lit ''Cannot read properties of undefined'')"
    for key params
    by (simp add: claudeTry_def andThen_def getProp_def lit_eq_iff exampleHost_def)
  note T = no_partial_result [OF p(1) refl refl, of Thorough exampleHost exampleNetwork
      "lit ''+ a line''" ?cfg emptyWorld, THEN conjunct2, THEN conjunct2, THEN conjunct1,
      THEN spec, THEN spec, THEN mp, THEN conjunct1, THEN spec, THEN mp]
  have A: "fst (generateCommitMessage Thorough exampleHost exampleNetwork (lit ''+ a line'')
      (lit ''openai'') ?cfg emptyWorld) = Inl (Error (lit ''OpenAI API error: '' @ lit ''Connection error.''))"
  proof (rule T)
    show "lit ''sk-o'' \<noteq> [] \<and> lit ''openai'' = lit ''openai'' \<and>
        orElse (configKey ?cfg openai) (env exampleHost ''OPENAI_API_KEY'') = Some (lit ''sk-o'') \<and>
        Rejected (lit ''Connection error.'') =
          chatCompletionsCreate exampleNetwork (lit ''sk-o'')
            (openaiParams (buildPrompt Thorough
               (fst (boundDiff (lit ''+ a line'') (lit ''openai'') emptyWorld))))"
      using n(1) k r by simp
  qed (rule refl)
  note U = no_partial_result [OF p(2) refl refl, of Thorough exampleHost ?net
      "lit ''+ a line''" defaultConfig emptyWorld, THEN conjunct2, THEN conjunct1,
      THEN spec, THEN spec, THEN mp, THEN conjunct2, THEN conjunct1, THEN spec, THEN mp]
  have B: "fst (generateCommitMessage Thorough exampleHost ?net (lit ''+ a line'')
      (lit ''claude'') defaultConfig emptyWorld) =
        Inl (Error (lit ''Claude API error: '' @ lit ''Cannot read properties of undefined''))"
  proof (rule U)
    show "lit ''tok-123'' \<noteq> [] \<and> lit ''claude'' = lit ''claude'' \<and>
        orElse (configKey defaultConfig anthropic) (env exampleHost ''ANTHROPIC_API_KEY'') =
          Some (lit ''tok-123'') \<and>
        messagesCreate ?net (lit ''tok-123'')
            (claudeParams (buildPrompt Thorough
               (fst (boundDiff (lit ''+ a line'') (lit ''claude'') emptyWorld)))) =
        messagesCreate ?net (lit ''tok-123'')
            (claudeParams (buildPrompt Thorough
               (fst (boundDiff (lit ''+ a line'') (lit ''claude'') emptyWorld))))"
      using n(2) k' by simp
  qed (rule r')
  from A B show ?thesis by (simp add: lit_append [symmetric])
qed

text \<open>
  Claim C8. For the empty diff: bounding returns it unchanged and prints nothing,
  whatever the provider; \<open>buildPrompt\<close> renders the whole template, its sections in
  order around an empty diff; and for each of the three backends with a secret resolved
  dispatch makes the backend's call with that prompt, prints nothing, and its outcome
  is what the \<open>try\<close> block makes of the answer: nothing is raised on account of the
  diff being empty.
\<close>

theorem empty_diff_is_sent:
  assumes "(provider, sel, var, call, outcome) \<in>
     {(lit ''claude'', anthropic, ''ANTHROPIC_API_KEY'',
         MessagesCreate key (claudeParams p),
         rethrow ''Claude API error: '' (claudeTry h (messagesCreate net key (claudeParams p)))),
      (lit ''openai'', openai, ''OPENAI_API_KEY'',
         ChatCompletionsCreate key (openaiParams p),
         rethrow ''OpenAI API error: ''
           (openaiTry h (chatCompletionsCreate net key (openaiParams p)))),
      (lit ''gemini'', gemini, ''GEMINI_API_KEY'',
         Fetch (geminiUrl key) (geminiInit p),
         rethrow ''Gemini API error: ''
           (geminiTry h (fetch net (geminiUrl key) (geminiInit p))))}"
    and "p = buildPrompt st []"
    and "orElse (configKey cfg sel) (env h var) = Some key"
    and "key \<noteq> []"
  shows "boundDiff [] provider w = ([], w) \<and>
         buildPrompt st [] =
           lit (roleFraming st) @ lit (formatPart st) @ lit (criticalRules st) @
           lit (examplesPart st) @ lit (closing st) \<and>
         generateCommitMessage st h net [] provider cfg w =
           (outcome, w\<lparr>calls := calls w @ [call]\<rparr>)"
proof -
  have "generateCommitMessage st h net [] provider cfg w = (outcome, w\<lparr>calls := calls w @ [call]\<rparr>)"
    using assms(1,3,4)
    by (auto simp add: assms(2) claude_outcome openai_outcome gemini_outcome boundDiff_Nil)
  then show ?thesis
    by (simp add: boundDiff_Nil buildPrompt_def)
qed

theorem empty_diff_is_sent_witness:
  "generateCommitMessage Concise exampleHost exampleNetwork [] (lit ''claude'') defaultConfig
       emptyWorld =
     (Inr (lit ''fix: typo''),
      \<lparr>console = [],
       calls = [MessagesCreate (lit ''tok-123'') (claudeParams (buildPrompt Concise []))]\<rparr>)"
proof -
  have n: "lit ''tok-123'' \<noteq> []" by (simp add: lit_def)
  have k: "orElse (configKey defaultConfig anthropic) (env exampleHost ''ANTHROPIC_API_KEY'') =
             Some (lit ''tok-123'')"
    by (simp add: orElse_def configKey_def defaultConfig_def exampleHost_def)
  have t: "trim (lit '' fix: typo\<newline>'') = lit ''fix: typo''"
    by (simp add: trim_def lit_def isWhiteSpace_def)
  have r: "rethrow ''Claude API error: ''
             (claudeTry exampleHost (messagesCreate exampleNetwork key params)) =
           Inr (lit ''fix: typo'')" for key params
    by (simp add: exampleNetwork_def claudeTry_def andThen_def getProp_def callTrim_def
        rethrow_def lit_eq_iff t)
  from empty_diff_is_sent [where provider = "lit ''claude''" and sel = anthropic
      and var = "''ANTHROPIC_API_KEY''" and st = Concise and h = exampleHost
      and net = exampleNetwork and cfg = defaultConfig and w = emptyWorld
      and key = "lit ''tok-123''", OF _ refl k n]
  show ?thesis by (simp add: r emptyWorld_def)
qed

end
